theory Spec2Isabelle
  imports Main
begin

section \<open>Text\<close>

text \<open>
  A Python \<open>str\<close> is a sequence of Unicode code points, so the model's string is a list
  of code points. The program's literals are Cyrillic; each is a constant below, with its
  transliteration beside it. \<open>asc\<close> reads an ASCII literal as such a string.
\<close>

type_synonym pystr = "nat list"

definition asc :: "string \<Rightarrow> pystr" where
  "asc s = map of_char s"

text \<open>
  \<open>str.isspace\<close>, which is also what \<open>str.strip()\<close> removes and what \<open>\s\<close> matches in a
  \<open>str\<close> pattern: TAB, LF, VT, FF, CR, U+001C..U+001F, SPACE, U+0085, U+00A0, U+1680,
  U+2000..U+200A, U+2028, U+2029, U+202F, U+205F, U+3000.
\<close>

definition is_space :: "nat \<Rightarrow> bool" where
  "is_space c \<longleftrightarrow>
     (9 \<le> c \<and> c \<le> 13) \<or> (28 \<le> c \<and> c \<le> 32) \<or> c = 133 \<or> c = 160 \<or> c = 5760 \<or>
     (8192 \<le> c \<and> c \<le> 8202) \<or> c = 8232 \<or> c = 8233 \<or> c = 8239 \<or> c = 8287 \<or> c = 12288"

text \<open>
  The decimal digits of Unicode (category Nd) are what \<open>\d\<close> matches in a \<open>str\<close> pattern
  and what \<open>int()\<close> reads. They come in runs of ten, zero first; \<open>nd_starts\<close> lists the
  zero of every run (Unicode 14, the table of CPython 3.11), the ASCII digits first.
\<close>

definition nd_starts :: "nat list" where
  "nd_starts =
     [48, 1632, 1776, 1984, 2406, 2534, 2662, 2790, 2918, 3046, 3174, 3302, 3430, 3558,
      3664, 3792, 3872, 4160, 4240, 6112, 6160, 6470, 6608, 6784, 6800, 6992, 7088, 7232,
      7248, 42528, 43216, 43264, 43472, 43504, 43600, 44016, 65296, 66720, 68912, 69734,
      69872, 69942, 70096, 70384, 70736, 70864, 71248, 71360, 71472, 71904, 72016, 72784,
      73040, 73120, 92768, 92864, 93008, 120782, 120792, 120802, 120812, 120822, 123200,
      123632, 125264, 130032]"

definition digit_val :: "nat \<Rightarrow> nat option" where
  "digit_val c = map_option (\<lambda>b. c - b) (find (\<lambda>b. b \<le> c \<and> c < b + 10) nd_starts)"

definition is_digit :: "nat \<Rightarrow> bool" where
  "is_digit c \<longleftrightarrow> digit_val c \<noteq> None"

text \<open>
  Case mapping. \<open>lower_cp\<close> and \<open>upper_cp\<close> are written out for Basic Latin and for the
  Cyrillic block U+0400..U+045F, the letters of the program's phrases; a code point of
  another script is left as it is. (\<open>str.lower\<close> sends no other code point to a Cyrillic
  letter, so looking for a Cyrillic phrase in lowered text gives what Python gives.)
\<close>

definition lower_cp :: "nat \<Rightarrow> nat" where
  "lower_cp c =
     (if 65 \<le> c \<and> c \<le> 90 then c + 32
      else if 1024 \<le> c \<and> c \<le> 1039 then c + 80
      else if 1040 \<le> c \<and> c \<le> 1071 then c + 32
      else c)"

definition upper_cp :: "nat \<Rightarrow> nat" where
  "upper_cp c =
     (if 97 \<le> c \<and> c \<le> 122 then c - 32
      else if 1104 \<le> c \<and> c \<le> 1119 then c - 80
      else if 1072 \<le> c \<and> c \<le> 1103 then c - 32
      else c)"

text \<open>
  Case folding under \<open>re.IGNORECASE\<close>: the lower case, and for the letters of the
  program's patterns the further code points \<open>re\<close> counts as the same letter (dotted and
  dotless i, and the variant forms U+1C80..U+1C86 of the Cyrillic ve, de, o, es, te and hard
  sign).
\<close>

definition fold_cp :: "nat \<Rightarrow> nat" where
  "fold_cp c =
     (if c = 304 \<or> c = 305 then 105
      else if c = 7296 then 1074
      else if c = 7297 then 1076
      else if c = 7298 then 1086
      else if c = 7299 then 1089
      else if c = 7300 \<or> c = 7301 then 1090
      else if c = 7302 then 1098
      else lower_cp c)"

definition lower :: "pystr \<Rightarrow> pystr" where
  "lower s = map lower_cp s"

definition strip :: "pystr \<Rightarrow> pystr" where
  "strip s = rev (dropWhile is_space (rev (dropWhile is_space s)))"

text \<open>\<open>s.replace(c, '')\<close> for a one-character \<open>c\<close>.\<close>

definition remove_char :: "nat \<Rightarrow> pystr \<Rightarrow> pystr" where
  "remove_char c s = filter (\<lambda>x. x \<noteq> c) s"

text \<open>\<open>sub in s\<close>.\<close>

fun contains :: "pystr \<Rightarrow> pystr \<Rightarrow> bool" where
  "contains [] sub = (sub = [])"
| "contains (x # xs) sub = (take (length sub) (x # xs) = sub \<or> contains xs sub)"

datatype py_error = ValueError | IndexError | TypeError | WebDriverException
  | RecursionError | UnicodeEncodeError | AssertionError | ConnectionError

text \<open>
  \<open>int(s)\<close> on text: surrounding white space is dropped, and what is left must be decimal
  digits (the program never passes a sign or an underscore); anything else is a
  \<open>ValueError\<close>. So is a text of more than 4300 digits: the interpreter limits the
  conversion of decimal text to \<open>int\<close> (\<open>sys.get_int_max_str_digits()\<close>, 4300 unless
  changed), leading zeros counted.
\<close>

definition int_max_str_digits :: nat where
  "int_max_str_digits = 4300"

definition digits_value :: "pystr \<Rightarrow> nat" where
  "digits_value s =
     foldl (\<lambda>acc c. 10 * acc + (case digit_val c of None \<Rightarrow> 0 | Some v \<Rightarrow> v)) 0 s"

definition py_int :: "pystr \<Rightarrow> py_error + nat" where
  "py_int s =
     (let t = strip s
      in if t \<noteq> [] \<and> list_all is_digit t \<and> length t \<le> int_max_str_digits
         then Inr (digits_value t) else Inl ValueError)"

section \<open>Regular expressions\<close>

text \<open>
  The patterns of the program (and those \<open>strptime\<close> builds) use literals, classes,
  sequence, alternation, greedy repetition of one character, groups, \<open>^\<close> and \<open>$\<close>.
  \<open>rx_run\<close> is the backtracking matcher of \<open>re\<close>: from one state it lists every way to
  match, in the order the engine would try them (an alternative's left branch first, a
  greedy repetition's longest run first), so the head of the list is the match \<open>re\<close> finds.
  A state is the number of characters consumed, the groups closed so far and the text
  left.
\<close>

datatype cset = CDigit | CSpace | CChar nat | CRange nat nat

datatype rx =
    Set "cset list"
  | Cat rx rx
  | Alt rx rx
  | Rep nat "nat option" "cset list"
  | Grp rx
  | Bol
  | Eol

type_synonym rx_state = "nat \<times> pystr list \<times> pystr"

text \<open>
  With \<open>re.IGNORECASE\<close> a literal matches a character that folds to the same letter, and a
  range matches a character whose folding, or the upper case of that, lies in it.
\<close>

fun cset_has :: "bool \<Rightarrow> cset \<Rightarrow> nat \<Rightarrow> bool" where
  "cset_has ic CDigit x = is_digit x"
| "cset_has ic CSpace x = is_space x"
| "cset_has ic (CChar c) x = (x = c \<or> (ic \<and> fold_cp x = fold_cp c))"
| "cset_has ic (CRange a b) x =
     ((a \<le> x \<and> x \<le> b) \<or>
      (ic \<and> ((a \<le> fold_cp x \<and> fold_cp x \<le> b) \<or>
             (a \<le> upper_cp (fold_cp x) \<and> upper_cp (fold_cp x) \<le> b))))"

definition in_set :: "bool \<Rightarrow> cset list \<Rightarrow> nat \<Rightarrow> bool" where
  "in_set ic cs x = list_ex (\<lambda>c. cset_has ic c x) cs"

text \<open>The runs a greedy \<open>x{m,n}\<close> can take, longest first.\<close>

definition rep_counts :: "nat \<Rightarrow> nat option \<Rightarrow> nat \<Rightarrow> nat list" where
  "rep_counts m n k =
     (let top = (case n of None \<Rightarrow> k | Some b \<Rightarrow> min b k)
      in if top < m then [] else rev [m ..< Suc top])"

fun rx_run :: "bool \<Rightarrow> rx \<Rightarrow> rx_state \<Rightarrow> rx_state list" where
  "rx_run ic (Set cs) (p, g, s) =
     (case s of [] \<Rightarrow> [] | x # r \<Rightarrow> if in_set ic cs x then [(Suc p, g, r)] else [])"
| "rx_run ic (Cat a b) st = concat (map (rx_run ic b) (rx_run ic a st))"
| "rx_run ic (Alt a b) st = rx_run ic a st @ rx_run ic b st"
| "rx_run ic (Rep m n cs) (p, g, s) =
     map (\<lambda>j. (p + j, g, drop j s)) (rep_counts m n (length (takeWhile (in_set ic cs) s)))"
| "rx_run ic (Grp a) (p, g, s) =
     map (\<lambda>(p', g', s'). (p', g' @ [take (p' - p) s], s')) (rx_run ic a (p, g, s))"
| "rx_run ic Bol (p, g, s) = (if p = 0 then [(p, g, s)] else [])"
| "rx_run ic Eol (p, g, s) = (if s = [] \<or> s = [10] then [(p, g, s)] else [])"

text \<open>A literal word, as a sequence of one-character sets.\<close>

fun lit :: "pystr \<Rightarrow> rx" where
  "lit [] = Rep 0 (Some 0) []"
| "lit [c] = Set [CChar c]"
| "lit (c # cs) = Cat (Set [CChar c]) (lit cs)"

text \<open>
  A match: where it starts, where it ends, its groups. \<open>re_match\<close> anchors at the start;
  \<open>re_search\<close> tries every start from the left.
\<close>

record rmatch =
  m_start :: nat
  m_end :: nat
  m_groups :: "pystr list"

definition match_at :: "bool \<Rightarrow> rx \<Rightarrow> nat \<Rightarrow> pystr \<Rightarrow> rmatch option" where
  "match_at ic r i s =
     (case rx_run ic r (i, [], drop i s) of
        [] \<Rightarrow> None
      | (e, g, _) # _ \<Rightarrow> Some \<lparr>m_start = i, m_end = e, m_groups = g\<rparr>)"

definition re_match :: "bool \<Rightarrow> rx \<Rightarrow> pystr \<Rightarrow> rmatch option" where
  "re_match ic r s = match_at ic r 0 s"

fun first_some :: "('a \<Rightarrow> 'b option) \<Rightarrow> 'a list \<Rightarrow> 'b option" where
  "first_some f [] = None"
| "first_some f (x # xs) = (case f x of Some y \<Rightarrow> Some y | None \<Rightarrow> first_some f xs)"

definition re_search :: "bool \<Rightarrow> rx \<Rightarrow> pystr \<Rightarrow> rmatch option" where
  "re_search ic r s = first_some (\<lambda>i. match_at ic r i s) [0 ..< Suc (length s)]"

definition m_text :: "pystr \<Rightarrow> rmatch \<Rightarrow> pystr" where
  "m_text s m = take (m_end m - m_start m) (drop (m_start m) s)"


fun ends_in_group :: "rx \<Rightarrow> bool" where
  "ends_in_group (Grp a) = True"
| "ends_in_group (Cat a b) = ends_in_group b"
| "ends_in_group r = False"

section \<open>The identifier validator\<close>

text \<open>
  \<open>validate_inn\<close> of \<open>rmsp_parser.py\<close> (the two other scripts have the same function). The
  argument is text or \<open>None\<close>; the result is the cleaned text, or \<open>None\<close> here for the
  \<open>False\<close> the code returns. The pattern is \<open>^\d{10}$|^\d{12}$\<close>.
\<close>

definition inn_rx :: rx where
  "inn_rx = Alt (Cat Bol (Cat (Rep 10 (Some 10) [CDigit]) Eol))
                (Cat Bol (Cat (Rep 12 (Some 12) [CDigit]) Eol))"

definition validate_inn :: "pystr option \<Rightarrow> pystr option" where
  "validate_inn inn =
     (case inn of
        None \<Rightarrow> None
      | Some s \<Rightarrow>
          if s = [] then None
          else let t = remove_char 45 (remove_char 32 s)
               in if re_match False inn_rx t = None then None else Some t)"

section \<open>The date reconciler\<close>

text \<open>
  A \<open>datetime.date\<close>: \<open>date(y, m, d)\<close> raises \<open>ValueError\<close> unless the year is in 1..9999
  and the day exists in the month. Dates compare by year, month, day.
\<close>

record date =
  d_year :: nat
  d_month :: nat
  d_day :: nat

definition is_leap :: "nat \<Rightarrow> bool" where
  "is_leap y \<longleftrightarrow> y mod 4 = 0 \<and> (y mod 100 \<noteq> 0 \<or> y mod 400 = 0)"

definition days_in_month :: "nat \<Rightarrow> nat \<Rightarrow> nat" where
  "days_in_month y m =
     (if m = 2 then (if is_leap y then 29 else 28)
      else if m = 4 \<or> m = 6 \<or> m = 9 \<or> m = 11 then 30 else 31)"

definition valid_date :: "date \<Rightarrow> bool" where
  "valid_date x \<longleftrightarrow>
     1 \<le> d_year x \<and> d_year x \<le> 9999 \<and> 1 \<le> d_month x \<and> d_month x \<le> 12 \<and>
     1 \<le> d_day x \<and> d_day x \<le> days_in_month (d_year x) (d_month x)"

definition make_date :: "nat \<Rightarrow> nat \<Rightarrow> nat \<Rightarrow> py_error + date" where
  "make_date y m d =
     (let x = \<lparr>d_year = y, d_month = m, d_day = d\<rparr>
      in if valid_date x then Inr x else Inl ValueError)"

definition date_less :: "date \<Rightarrow> date \<Rightarrow> bool" where
  "date_less a b \<longleftrightarrow>
     d_year a < d_year b \<or>
     (d_year a = d_year b \<and>
        (d_month a < d_month b \<or> (d_month a = d_month b \<and> d_day a < d_day b)))"

text \<open>
  \<open>datetime.strptime\<close> for the directives the program uses. \<open>_strptime\<close> turns the format
  into a pattern, one named group per directive and every other character a literal:
  \<open>%d\<close> is \<open>(3[0-1]|[1-2]\d|0[1-9]|[1-9]| [1-9])\<close>, \<open>%m\<close> is \<open>(1[0-2]|0[1-9]|[1-9])\<close>, \<open>%Y\<close> is
  \<open>(\d\d\d\d)\<close>, \<open>%y\<close> is \<open>(\d\d)\<close>. It matches the pattern at the start of the text, ignoring
  case, and raises \<open>ValueError\<close> when there is no match or text is left over. A two-digit
  year up to 68 is in 2000..2068, another in 1969..1999.
\<close>

datatype directive = Dir_d | Dir_m | Dir_Y | Dir_y

datatype fmt_item = Directive directive | Literal nat

type_synonym format = "fmt_item list"

definition any_digit :: rx where
  "any_digit = Set [CDigit]"

fun directive_rx :: "directive \<Rightarrow> rx" where
  "directive_rx Dir_d =
     Grp (Alt (Cat (Set [CChar 51]) (Set [CRange 48 49]))
         (Alt (Cat (Set [CRange 49 50]) any_digit)
         (Alt (Cat (Set [CChar 48]) (Set [CRange 49 57]))
         (Alt (Set [CRange 49 57])
              (Cat (Set [CChar 32]) (Set [CRange 49 57]))))))"
| "directive_rx Dir_m =
     Grp (Alt (Cat (Set [CChar 49]) (Set [CRange 48 50]))
         (Alt (Cat (Set [CChar 48]) (Set [CRange 49 57]))
              (Set [CRange 49 57])))"
| "directive_rx Dir_Y = Grp (Cat any_digit (Cat any_digit (Cat any_digit any_digit)))"
| "directive_rx Dir_y = Grp (Cat any_digit any_digit)"

fun item_rx :: "fmt_item \<Rightarrow> rx" where
  "item_rx (Directive d) = directive_rx d"
| "item_rx (Literal c) = Set [CChar c]"

fun format_rx :: "format \<Rightarrow> rx" where
  "format_rx [] = Rep 0 (Some 0) []"
| "format_rx [i] = item_rx i"
| "format_rx (i # is) = Cat (item_rx i) (format_rx is)"

fun directives :: "format \<Rightarrow> directive list" where
  "directives [] = []"
| "directives (Directive d # is) = d # directives is"
| "directives (Literal c # is) = directives is"

text \<open>The fields a match sets: year (1900 when no directive gives one), month, day.\<close>

fun set_fields :: "(directive \<times> pystr) list \<Rightarrow> nat \<times> nat \<times> nat \<Rightarrow> py_error + nat \<times> nat \<times> nat"
  where
  "set_fields [] ymd = Inr ymd"
| "set_fields ((k, g) # rest) (y, m, d) =
     (case py_int g of
        Inl e \<Rightarrow> Inl e
      | Inr v \<Rightarrow>
          (case k of
             Dir_y \<Rightarrow> set_fields rest (if v \<le> 68 then v + 2000 else v + 1900, m, d)
           | Dir_Y \<Rightarrow> set_fields rest (v, m, d)
           | Dir_m \<Rightarrow> set_fields rest (y, v, d)
           | Dir_d \<Rightarrow> set_fields rest (y, m, v)))"

definition strptime :: "format \<Rightarrow> pystr \<Rightarrow> py_error + date" where
  "strptime fmt s =
     (case re_match True (format_rx fmt) s of
        None \<Rightarrow> Inl ValueError
      | Some m \<Rightarrow>
          if m_end m \<noteq> length s then Inl ValueError
          else (case set_fields (zip (directives fmt) (m_groups m)) (1900, 1, 1) of
                  Inl e \<Rightarrow> Inl e
                | Inr (y, mo, d) \<Rightarrow> make_date y mo d))"

text \<open>
  The formats of \<open>parse_date\<close>, in its order: \<open>%d.%m.%Y\<close>, \<open>%d/%m/%Y\<close>, \<open>%Y-%m-%d\<close>,
  \<open>%d-%m-%Y\<close>, \<open>%d.%m.%y\<close>, \<open>%d/%m/%y\<close>.
\<close>

definition date_formats :: "format list" where
  "date_formats =
     [[Directive Dir_d, Literal 46, Directive Dir_m, Literal 46, Directive Dir_Y],
      [Directive Dir_d, Literal 47, Directive Dir_m, Literal 47, Directive Dir_Y],
      [Directive Dir_Y, Literal 45, Directive Dir_m, Literal 45, Directive Dir_d],
      [Directive Dir_d, Literal 45, Directive Dir_m, Literal 45, Directive Dir_Y],
      [Directive Dir_d, Literal 46, Directive Dir_m, Literal 46, Directive Dir_y],
      [Directive Dir_d, Literal 47, Directive Dir_m, Literal 47, Directive Dir_y]]"

text \<open>
  A spreadsheet cell, or a field of a lookup result, as \<open>parse_date\<close> tells them apart:
  missing (\<open>None\<close>, NaN, NaT: \<open>pd.isna\<close>), text, a \<open>datetime\<close> (of which only the date
  counts), a \<open>date\<close>, or another scalar (a number, a boolean, a time of day).
\<close>

datatype cell = Missing | Text pystr | DateTime date | Date date | Other

text \<open>The loop over the formats: \<open>ValueError\<close> moves on to the next, the first parse wins.\<close>

fun try_formats :: "format list \<Rightarrow> pystr \<Rightarrow> py_error + date option" where
  "try_formats [] s = Inr None"
| "try_formats (f # fs) s =
     (case strptime f s of
        Inr d \<Rightarrow> Inr (Some d)
      | Inl e \<Rightarrow> if e = ValueError then try_formats fs s else Inl e)"

definition parse_date :: "cell \<Rightarrow> py_error + date option" where
  "parse_date date_value =
     (case date_value of
        Missing \<Rightarrow> Inr None
      | Text s \<Rightarrow> if s = [] then Inr None else try_formats date_formats (strip s)
      | DateTime d \<Rightarrow> Inr (Some d)
      | Date d \<Rightarrow> Inr (Some d)
      | Other \<Rightarrow> Inr None)"

text \<open>The flags of the output: \<open>yes_ru\<close> is "da", \<open>no_ru\<close> is "net" (U+0434 U+0430, U+043D U+0435 U+0442).\<close>

definition yes_ru :: pystr where
  "yes_ru = [1076, 1072]"

definition no_ru :: pystr where
  "no_ru = [1085, 1077, 1090]"

definition compare_dates :: "cell \<Rightarrow> cell \<Rightarrow> py_error + pystr" where
  "compare_dates contract_date inclusion_date =
     (case parse_date contract_date of
        Inl e \<Rightarrow> Inl e
      | Inr contract_parsed \<Rightarrow>
          (case parse_date inclusion_date of
             Inl e \<Rightarrow> Inl e
           | Inr inclusion_parsed \<Rightarrow>
               (case (contract_parsed, inclusion_parsed) of
                  (Some c, Some i) \<Rightarrow> Inr (if date_less c i then yes_ru else no_ru)
                | _ \<Rightarrow> Inr [])))"

text \<open>A date written as \<open>dd.mm.yyyy\<close>, zero-padded (\<open>strftime('%d.%m.%Y')\<close>).\<close>

definition two_digits :: "nat \<Rightarrow> pystr" where
  "two_digits n = [48 + n div 10 mod 10, 48 + n mod 10]"

definition four_digits :: "nat \<Rightarrow> pystr" where
  "four_digits n = [48 + n div 1000 mod 10, 48 + n div 100 mod 10, 48 + n div 10 mod 10, 48 + n mod 10]"

definition format_dmY :: "date \<Rightarrow> pystr" where
  "format_dmY x = two_digits (d_day x) @ [46] @ two_digits (d_month x) @ [46] @ four_digits (d_year x)"

section \<open>The batch orchestrator\<close>

text \<open>
  The dictionary \<open>parse_results\<close> returns and \<open>search_by_inn\<close> hands on: always the same nine
  keys, \<open>found\<close> a boolean and the others text.
\<close>

record lookup =
  r_found :: bool
  r_organization_name :: pystr
  r_category :: pystr
  r_inclusion_date :: pystr
  r_exclusion_date :: pystr
  r_region :: pystr
  r_inn :: pystr
  r_ogrn :: pystr
  r_message :: pystr

text \<open>
  The categories of the registry, as the page and the program write them:
  "Mikropredpriyatie", "Maloe predpriyatie", "Srednee predpriyatie" and
  "Ne yavlyaetsya subektom MSP" (micro, small and medium enterprise, not a subject).
\<close>

definition cat_micro :: pystr where
  "cat_micro = [1052, 1080, 1082, 1088, 1086, 1087, 1088, 1077, 1076, 1087, 1088, 1080, 1103,
     1090, 1080, 1077]"

definition cat_small :: pystr where
  "cat_small = [1052, 1072, 1083, 1086, 1077, 32, 1087, 1088, 1077, 1076, 1087, 1088, 1080,
     1103, 1090, 1080, 1077]"

definition cat_medium :: pystr where
  "cat_medium = [1057, 1088, 1077, 1076, 1085, 1077, 1077, 32, 1087, 1088, 1077, 1076, 1087,
     1088, 1080, 1103, 1090, 1080, 1077]"

definition cat_not_msp :: pystr where
  "cat_not_msp = [1053, 1077, 32, 1103, 1074, 1083, 1103, 1077, 1090, 1089, 1103, 32, 1089,
     1091, 1073, 1098, 1077, 1082, 1090, 1086, 1084, 32, 1052, 1057, 1055]"

text \<open>
  What \<open>self.parser.search_by_inn(inn_str)\<close> does when \<open>process_single_inn\<close> calls it:
  it raises, returns \<open>None\<close>, or returns a dictionary.
\<close>

type_synonym searcher = "pystr \<Rightarrow> py_error + lookup option"

text \<open>Two parsers for the examples: one that returns the same answer at every row, one that raises.\<close>

definition always_returns :: "lookup option \<Rightarrow> nat \<Rightarrow> searcher" where
  "always_returns answer i inn_str = Inr answer"

definition always_raises :: "py_error \<Rightarrow> nat \<Rightarrow> searcher" where
  "always_raises e i inn_str = Inl e"

text \<open>The dictionary \<open>process_single_inn\<close> returns.\<close>

record robot =
  smsp_robot :: pystr
  category_robot :: pystr
  inclusion_date_robot :: pystr
  exclusion_date_robot :: pystr
  date_discrepancy_robot :: pystr

definition default_robot :: robot where
  "default_robot =
     \<lparr>smsp_robot = no_ru, category_robot = [], inclusion_date_robot = [],
      exclusion_date_robot = [], date_discrepancy_robot = []\<rparr>"

text \<open>
  \<open>process_single_inn\<close>. The identifier cell is \<open>None\<close> when \<open>pd.isna\<close> holds of it, and
  otherwise the text \<open>str(inn_value)\<close>. \<open>except Exception\<close> keeps the default result.
\<close>

definition process_single_inn :: "searcher \<Rightarrow> pystr option \<Rightarrow> robot" where
  "process_single_inn search_by_inn inn_value =
     (case inn_value of
        None \<Rightarrow> default_robot
      | Some v \<Rightarrow>
          if strip v = [] then default_robot
          else (case search_by_inn (strip v) of
                  Inl e \<Rightarrow> default_robot
                | Inr None \<Rightarrow> default_robot
                | Inr (Some search_result) \<Rightarrow>
                    if r_found search_result
                    then default_robot
                           \<lparr>smsp_robot := yes_ru,
                            category_robot := r_category search_result,
                            inclusion_date_robot := r_inclusion_date search_result,
                            exclusion_date_robot := r_exclusion_date search_result\<rparr>
                    else default_robot))"

text \<open>
  A row of the data frame: the two input columns and the five output columns. The
  placeholders of the exclusion date are "ne ukazana", "ne naidena", "(pusto)", "pusto".
\<close>

record row =
  row_inn :: "pystr option"
  row_contract :: cell
  col_smsp :: cell
  col_category :: cell
  col_inclusion :: cell
  col_exclusion :: cell
  col_discrepancy :: cell

definition placeholders :: "pystr list" where
  "placeholders =
     [[1085, 1077, 32, 1091, 1082, 1072, 1079, 1072, 1085, 1072],
      [1085, 1077, 32, 1085, 1072, 1081, 1076, 1077, 1085, 1072],
      [40, 1087, 1091, 1089, 1090, 1086, 41],
      [1087, 1091, 1089, 1090, 1086]]"

text \<open>
  \<open>add_output_columns\<close>: an output column the file does not have is added, empty in every
  row; one it has is left as it is. \<open>present\<close> says which of the five the file has.
\<close>

record present =
  has_smsp :: bool
  has_category :: bool
  has_inclusion :: bool
  has_exclusion :: bool
  has_discrepancy :: bool

definition add_output_columns :: "present \<Rightarrow> row list \<Rightarrow> row list" where
  "add_output_columns h df =
     map (\<lambda>r. r\<lparr>col_smsp := (if has_smsp h then col_smsp r else Text []),
                col_category := (if has_category h then col_category r else Text []),
                col_inclusion := (if has_inclusion h then col_inclusion r else Text []),
                col_exclusion := (if has_exclusion h then col_exclusion r else Text []),
                col_discrepancy := (if has_discrepancy h then col_discrepancy r else Text [])\<rparr>) df"

text \<open>The body of the loop of \<open>process_excel_file\<close>, on the row it reads and writes.\<close>

definition exclusion_cell :: "pystr \<Rightarrow> pystr" where
  "exclusion_cell exclusion_date =
     (if exclusion_date \<noteq> [] \<and> strip exclusion_date \<noteq> [] \<and> lower exclusion_date \<notin> set placeholders
      then exclusion_date else [])"

definition process_row :: "searcher \<Rightarrow> row \<Rightarrow> py_error + row" where
  "process_row search_by_inn r =
     (let process_result = process_single_inn search_by_inn (row_inn r);
          r1 = r\<lparr>col_smsp := Text (smsp_robot process_result),
                 col_category := Text (category_robot process_result),
                 col_inclusion := Text (inclusion_date_robot process_result),
                 col_exclusion := Text (exclusion_cell (exclusion_date_robot process_result))\<rparr>
      in if smsp_robot process_result = yes_ru
         then (case compare_dates (row_contract r) (Text (inclusion_date_robot process_result)) of
                 Inl e \<Rightarrow> Inl e
               | Inr date_discrepancy \<Rightarrow> Inr (r1\<lparr>col_discrepancy := Text date_discrepancy\<rparr>))
         else Inr r1)"

text \<open>
  The loop: row after row, each written back at its own index. The parser is asked once
  for a row; \<open>searchers i\<close> is what it does when asked for row \<open>i\<close>. An exception that
  leaves \<open>process_row\<close> ends the loop.
\<close>

fun process_rows :: "(nat \<Rightarrow> searcher) \<Rightarrow> nat list \<Rightarrow> row list \<Rightarrow> py_error + row list" where
  "process_rows searchers [] df = Inr df"
| "process_rows searchers (i # rest) df =
     (case process_row (searchers i) (df ! i) of
        Inl e \<Rightarrow> Inl e
      | Inr r \<Rightarrow> process_rows searchers rest (df[i := r]))"

definition process_excel_file :: "(nat \<Rightarrow> searcher) \<Rightarrow> present \<Rightarrow> row list \<Rightarrow> py_error + row list" where
  "process_excel_file searchers h df =
     process_rows searchers [0 ..< length df] (add_output_columns h df)"

section \<open>The document tree\<close>

text \<open>
  \<open>BeautifulSoup(html_content, 'html.parser')\<close> turns the markup into a tree, and the
  extractor works on that tree only; the tree is the input of the model. A node is a
  string or a tag with its name, its attributes and its children; tag and attribute names
  are in lower case, as the parser stores them, and the root is a tag named \<open>[document]\<close>.
  A string has a kind: ordinary text (\<open>Plain\<close>), a CDATA section, text the parser read
  inside \<open>script\<close>, \<open>style\<close>, \<open>template\<close>, \<open>rt\<close> or \<open>rp\<close> (\<open>Contained\<close>, with the name of that
  tag), or a comment, doctype, declaration or processing instruction (\<open>Markup\<close>).
\<close>

datatype skind = Plain | CData | Contained pystr | Markup

datatype node = Str skind pystr | Tag pystr "(pystr \<times> pystr) list" "node list"

fun tag_name :: "node \<Rightarrow> pystr" where
  "tag_name (Tag n a cs) = n"
| "tag_name (Str k t) = []"

fun attrs :: "node \<Rightarrow> (pystr \<times> pystr) list" where
  "attrs (Tag n a cs) = a"
| "attrs (Str k t) = []"

fun children :: "node \<Rightarrow> node list" where
  "children (Tag n a cs) = cs"
| "children (Str k t) = []"

fun is_tag :: "node \<Rightarrow> bool" where
  "is_tag (Tag n a cs) = True"
| "is_tag (Str k t) = False"

text \<open>
  The nodes below a list of siblings, in document order, each with its ancestors, nearest
  first. An ancestor carries a flag: it is the first element among its siblings
  (\<open>:first-child\<close>). \<open>seen\<close> says that an element came before in the list.
\<close>

type_synonym entry = "node \<times> (node \<times> bool) list"

fun walk :: "(node \<times> bool) list \<Rightarrow> bool \<Rightarrow> node list \<Rightarrow> entry list" where
  "walk anc seen [] = []"
| "walk anc seen (Str k t # cs) = (Str k t, anc) # walk anc seen cs"
| "walk anc seen (Tag n a ks # cs) =
     (Tag n a ks, anc) # walk ((Tag n a ks, \<not> seen) # anc) False ks @ walk anc True cs"

definition entries :: "node \<Rightarrow> entry list" where
  "entries t = walk [(t, False)] False (children t)"

definition descendants :: "node \<Rightarrow> node list" where
  "descendants t = map fst (entries t)"

text \<open>\<open>find\<close> and \<open>find_all\<close> by tag name, over the descendants.\<close>

definition find_all :: "pystr list \<Rightarrow> node \<Rightarrow> node list" where
  "find_all names t = filter (\<lambda>x. is_tag x \<and> tag_name x \<in> set names) (descendants t)"

definition find_tag :: "(node \<Rightarrow> bool) \<Rightarrow> node \<Rightarrow> node option" where
  "find_tag P t = find (\<lambda>x. is_tag x \<and> P x) (descendants t)"

text \<open>
  \<open>find(string=pattern)\<close>: the first string of any kind in which the pattern is found,
  with the tag that holds it (its \<open>.parent\<close>).
\<close>

fun entry_string :: "entry \<Rightarrow> (pystr \<times> node) option" where
  "entry_string (Str k t, (par, f) # anc) = Some (t, par)"
| "entry_string e = None"

definition find_string :: "bool \<Rightarrow> rx \<Rightarrow> node \<Rightarrow> (pystr \<times> node) option" where
  "find_string ic r t =
     find (\<lambda>(s, par). re_search ic r s \<noteq> None) (List.map_filter entry_string (entries t))"

text \<open>
  \<open>get_text\<close>: the strings below a tag that it counts as text, joined. A tag named
  \<open>script\<close>, \<open>style\<close>, \<open>template\<close>, \<open>rt\<close> or \<open>rp\<close> counts the strings the parser read as its own
  content; any other tag counts ordinary text and CDATA. With \<open>strip=True\<close> every string is
  stripped and an empty one left out.
\<close>

definition containers :: "pystr list" where
  "containers = [asc ''script'', asc ''style'', asc ''template'', asc ''rt'', asc ''rp'']"

definition interesting :: "pystr \<Rightarrow> skind list" where
  "interesting name = (if name \<in> set containers then [Contained name] else [Plain, CData])"

fun node_text :: "skind list \<Rightarrow> node \<Rightarrow> pystr option" where
  "node_text kinds (Str k t) = (if k \<in> set kinds then Some t else None)"
| "node_text kinds (Tag n a cs) = None"

definition all_strings :: "node \<Rightarrow> pystr list" where
  "all_strings t = List.map_filter (node_text (interesting (tag_name t))) (descendants t)"

definition get_text :: "node \<Rightarrow> pystr" where
  "get_text t = concat (all_strings t)"

definition get_text_strip :: "node \<Rightarrow> pystr" where
  "get_text_strip t = concat (filter (\<lambda>x. x \<noteq> []) (map strip (all_strings t)))"

text \<open>
  The \<open>.string\<close> of a tag: its only child if that is a string, or the \<open>.string\<close> of its
  only child when that is a tag, read by a nested call of the same property, one call for
  every level. The interpreter allows a limited depth of nested calls and raises
  \<open>RecursionError\<close> beyond it: \<open>d\<close> is the number of nested calls still allowed.
  \<open>chain_depth\<close> is the number of nested calls a tag needs.
\<close>

fun tag_string :: "nat \<Rightarrow> node \<Rightarrow> py_error + pystr option" where
  "tag_string d (Str k t) = Inr (Some t)"
| "tag_string d (Tag n a [Str k t]) = Inr (Some t)"
| "tag_string d (Tag n a [Tag m b cs]) =
     (case d of 0 \<Rightarrow> Inl RecursionError | Suc d' \<Rightarrow> tag_string d' (Tag m b cs))"
| "tag_string d (Tag n a cs) = Inr None"


text \<open>
  The \<open>class\<close> attribute is a list of words. \<open>class_=pattern\<close> holds when the pattern is
  found in one of the words or in the words joined by spaces.
\<close>

fun words_from :: "pystr \<Rightarrow> pystr \<Rightarrow> pystr list" where
  "words_from cur [] = (if cur = [] then [] else [cur])"
| "words_from cur (c # cs) =
     (if is_space c then (if cur = [] then words_from [] cs else cur # words_from [] cs)
      else words_from (cur @ [c]) cs)"

definition classes :: "node \<Rightarrow> pystr list option" where
  "classes t = map_option (words_from []) (map_of (attrs t) (asc ''class''))"

fun join_spaces :: "pystr list \<Rightarrow> pystr" where
  "join_spaces [] = []"
| "join_spaces [w] = w"
| "join_spaces (w # ws) = w @ [32] @ join_spaces ws"

definition class_matches :: "bool \<Rightarrow> rx \<Rightarrow> node \<Rightarrow> bool" where
  "class_matches ic r t =
     (case classes t of
        None \<Rightarrow> False
      | Some ws \<Rightarrow> list_ex (\<lambda>w. re_search ic r w \<noteq> None) ws \<or> re_search ic r (join_spaces ws) \<noteq> None)"

text \<open>
  The four selectors of \<open>select_one\<close>: \<open>a[href*="view"]\<close>, \<open>.organization-name\<close>,
  \<open>.company-name\<close> and \<open>td:first-child a\<close>. \<open>select_one\<close> returns the first element in
  document order that the selector matches, here with its ancestors.
\<close>

datatype selector = A_href_view | Class_is pystr | Td_first_child_a

fun selects :: "selector \<Rightarrow> entry \<Rightarrow> bool" where
  "selects A_href_view (x, anc) =
     (is_tag x \<and> tag_name x = asc ''a'' \<and>
      (case map_of (attrs x) (asc ''href'') of None \<Rightarrow> False | Some v \<Rightarrow> contains v (asc ''view'')))"
| "selects (Class_is c) (x, anc) =
     (is_tag x \<and> (case classes x of None \<Rightarrow> False | Some ws \<Rightarrow> c \<in> set ws))"
| "selects Td_first_child_a (x, anc) =
     (is_tag x \<and> tag_name x = asc ''a'' \<and> list_ex (\<lambda>(t, f). tag_name t = asc ''td'' \<and> f) anc)"

definition select_one :: "selector \<Rightarrow> node \<Rightarrow> entry option" where
  "select_one sel t = find (selects sel) (entries t)"

definition find_parent :: "pystr \<Rightarrow> entry \<Rightarrow> node option" where
  "find_parent name e = map_option fst (find (\<lambda>(t, f). tag_name t = name) (snd e))"

text \<open>\<open>xs[i]\<close>: an index out of range raises \<open>IndexError\<close>.\<close>

definition item :: "'a list \<Rightarrow> nat \<Rightarrow> py_error + 'a" where
  "item xs i = (if i < length xs then Inr (xs ! i) else Inl IndexError)"

section \<open>The record extractor\<close>

text \<open>The phrases and labels of the extractor, each with its transliteration.\<close>

definition w_not_found :: pystr where \<comment> \<open>ne naideno\<close>
  "w_not_found = [1085, 1077, 32, 1085, 1072, 1081, 1076, 1077, 1085, 1086]"

definition w_not_found_short :: pystr where \<comment> \<open>ne naiden\<close>
  "w_not_found_short = [1085, 1077, 32, 1085, 1072, 1081, 1076, 1077, 1085]"

definition w_absent :: pystr where \<comment> \<open>otsutstvuet\<close>
  "w_absent = [1086, 1090, 1089, 1091, 1090, 1089, 1090, 1074, 1091, 1077, 1090]"

definition w_no_information :: pystr where \<comment> \<open>ne naideno svedenii\<close>
  "w_no_information = [1085, 1077, 32, 1085, 1072, 1081, 1076, 1077, 1085, 1086, 32,
     1089, 1074, 1077, 1076, 1077, 1085, 1080, 1081]"

definition dear_user :: pystr where \<comment> \<open>Uvazhaemyi polzovatel\<close>
  "dear_user = [1059, 1074, 1072, 1078, 1072, 1077, 1084, 1099, 1081, 32, 1087,
     1086, 1083, 1100, 1079, 1086, 1074, 1072, 1090, 1077, 1083, 1100]"

definition counter_label :: pystr where \<comment> \<open>Naideno zapisei:\<close>
  "counter_label = [1053, 1072, 1081, 1076, 1077, 1085, 1086, 32, 1079, 1072, 1087,
     1080, 1089, 1077, 1081, 58]"

definition msg_no_records :: pystr where \<comment> \<open>Zapisi ne naideny\<close>
  "msg_no_records = [1047, 1072, 1087, 1080, 1089, 1080, 32, 1085, 1077, 32, 1085,
     1072, 1081, 1076, 1077, 1085, 1099]"

definition label_inn :: pystr where \<comment> \<open>INN\<close>
  "label_inn = [1048, 1053, 1053]"

definition label_ogrn :: pystr where \<comment> \<open>OGRN\<close>
  "label_ogrn = [1054, 1043, 1056, 1053]"

definition name_to_be_checked :: pystr where \<comment> \<open>Organizatsiya naidena (trebuetsya utochnenie nazvaniya)\<close>
  "name_to_be_checked = [1054, 1088, 1075, 1072, 1085, 1080, 1079, 1072, 1094, 1080,
     1103, 32, 1085, 1072, 1081, 1076, 1077, 1085, 1072, 32, 40, 1090, 1088, 1077,
     1073, 1091, 1077, 1090, 1089, 1103, 32, 1091, 1090, 1086, 1095, 1085, 1077,
     1085, 1080, 1077, 32, 1085, 1072, 1079, 1074, 1072, 1085, 1080, 1103, 41]"

definition msg_not_in_registry :: pystr where \<comment> \<open>Organizatsiya ne naidena v reestre\<close>
  "msg_not_in_registry = [1054, 1088, 1075, 1072, 1085, 1080, 1079, 1072, 1094,
     1080, 1103, 32, 1085, 1077, 32, 1085, 1072, 1081, 1076, 1077, 1085, 1072, 32,
     1074, 32, 1088, 1077, 1077, 1089, 1090, 1088, 1077]"

definition kw_micro :: pystr where \<comment> \<open>mikropredpriyatie\<close>
  "kw_micro = [1084, 1080, 1082, 1088, 1086, 1087, 1088, 1077, 1076, 1087, 1088,
     1080, 1103, 1090, 1080, 1077]"

definition kw_small :: pystr where \<comment> \<open>maloe predpriyatie\<close>
  "kw_small = [1084, 1072, 1083, 1086, 1077, 32, 1087, 1088, 1077, 1076, 1087, 1088,
     1080, 1103, 1090, 1080, 1077]"

definition kw_medium :: pystr where \<comment> \<open>srednee predpriyatie\<close>
  "kw_medium = [1089, 1088, 1077, 1076, 1085, 1077, 1077, 32, 1087, 1088, 1077,
     1076, 1087, 1088, 1080, 1103, 1090, 1080, 1077]"

definition ex_date_of_exclusion :: pystr where \<comment> \<open>data isklyucheniya\<close>
  "ex_date_of_exclusion = [1076, 1072, 1090, 1072, 32, 1080, 1089, 1082, 1083, 1102,
     1095, 1077, 1085, 1080, 1103]"

definition ex_excluded :: pystr where \<comment> \<open>isklyuchen\<close>
  "ex_excluded = [1080, 1089, 1082, 1083, 1102, 1095, 1077, 1085]"

definition ex_date_of_leaving :: pystr where \<comment> \<open>data vybytiya\<close>
  "ex_date_of_leaving = [1076, 1072, 1090, 1072, 32, 1074, 1099, 1073, 1099, 1090,
     1080, 1103]"

definition ex_left :: pystr where \<comment> \<open>vybyl\<close>
  "ex_left = [1074, 1099, 1073, 1099, 1083]"

definition ex_exclusion :: pystr where \<comment> \<open>isklyuchenie\<close>
  "ex_exclusion = [1080, 1089, 1082, 1083, 1102, 1095, 1077, 1085, 1080, 1077]"

text \<open>
  The patterns: \<open>alert|warning\<close> (ignoring case), the counter
  \<open>Naideno zapisei:\s*(\d+)\<close>, the identifier and registration number in a row
  (\<open>INN[:\s]*(\d{10,12})\<close>, \<open>OGRN[:\s]*(\d{13,15})\<close>) and in a detail block (\<open>INN|OGRN\<close>,
  \<open>INN:\s*(\d{10,12})\<close>, \<open>OGRN:\s*(\d{13,15})\<close>), the five patterns of the exclusion date, each
  a phrase, then \<open>[:\s]*\<close>, then \<open>(\d{1,2}[.\-/]\d{1,2}[.\-/]\d{2,4})\<close> (ignoring case; the
  second and the fourth have \<open>[a-ya]*\<close> after the phrase, the Cyrillic letters U+0430..U+044F),
  and the date \<open>\d{2}\.\d{2}\.\d{4}\<close> of the other two scripts.
\<close>

definition alert_rx :: rx where
  "alert_rx = Alt (lit (asc ''alert'')) (lit (asc ''warning''))"

definition counter_rx :: rx where
  "counter_rx = Cat (lit counter_label) (Cat (Rep 0 None [CSpace]) (Grp (Rep 1 None [CDigit])))"

definition colon_space :: rx where
  "colon_space = Rep 0 None [CChar 58, CSpace]"

definition inn_row_rx :: rx where
  "inn_row_rx = Cat (lit label_inn) (Cat colon_space (Grp (Rep 10 (Some 12) [CDigit])))"

definition ogrn_row_rx :: rx where
  "ogrn_row_rx = Cat (lit label_ogrn) (Cat colon_space (Grp (Rep 13 (Some 15) [CDigit])))"

definition detail_rx :: rx where
  "detail_rx = Alt (lit label_inn) (lit label_ogrn)"

definition inn_detail_rx :: rx where
  "inn_detail_rx =
     Cat (lit (label_inn @ [58])) (Cat (Rep 0 None [CSpace]) (Grp (Rep 10 (Some 12) [CDigit])))"

definition ogrn_detail_rx :: rx where
  "ogrn_detail_rx =
     Cat (lit (label_ogrn @ [58])) (Cat (Rep 0 None [CSpace]) (Grp (Rep 13 (Some 15) [CDigit])))"

definition separator :: rx where
  "separator = Set [CChar 46, CChar 45, CChar 47]"

definition date_group :: rx where
  "date_group =
     Grp (Cat (Rep 1 (Some 2) [CDigit]) (Cat separator
         (Cat (Rep 1 (Some 2) [CDigit]) (Cat separator (Rep 2 (Some 4) [CDigit])))))"

definition cyrillic_letters :: rx where
  "cyrillic_letters = Rep 0 None [CRange 1072 1103]"

definition exclusion_patterns :: "rx list" where
  "exclusion_patterns =
     [Cat (lit ex_date_of_exclusion) (Cat colon_space date_group),
      Cat (lit ex_excluded) (Cat cyrillic_letters (Cat colon_space date_group)),
      Cat (lit ex_date_of_leaving) (Cat colon_space date_group),
      Cat (lit ex_left) (Cat cyrillic_letters (Cat colon_space date_group)),
      Cat (lit ex_exclusion) (Cat colon_space date_group)]"

definition date_rx :: rx where
  "date_rx =
     Cat (Rep 2 (Some 2) [CDigit]) (Cat (Set [CChar 46])
    (Cat (Rep 2 (Some 2) [CDigit]) (Cat (Set [CChar 46]) (Rep 4 (Some 4) [CDigit]))))"

text \<open>Sequencing with exceptions, and \<open>match.group(1)\<close>.\<close>

definition ebind :: "py_error + 'a \<Rightarrow> ('a \<Rightarrow> py_error + 'b) \<Rightarrow> py_error + 'b" where
  "ebind m f = (case m of Inl e \<Rightarrow> Inl e | Inr x \<Rightarrow> f x)"

definition group1 :: "rmatch \<Rightarrow> py_error + pystr" where
  "group1 m = item (m_groups m) 0"

text \<open>
  What \<open>parse_results\<close> depends on besides the markup. It prints three progress lines
  that carry a pictograph and Cyrillic text, and \<open>print\<close> raises \<open>UnicodeEncodeError\<close> when
  the encoding of the standard output has no code for them: \<open>print_ok\<close> says that the
  standard output takes these lines. \<open>string_depth\<close> is the number of nested calls the
  interpreter still allows when \<open>.string\<close> of a tag is read.
\<close>

record runtime =
  print_ok :: bool
  string_depth :: nat

definition py_print :: "runtime \<Rightarrow> py_error + unit" where
  "py_print rt = (if print_ok rt then Inr () else Inl UnicodeEncodeError)"

definition default_lookup :: lookup where
  "default_lookup =
     \<lparr>r_found = False, r_organization_name = [], r_category = [], r_inclusion_date = [],
      r_exclusion_date = [], r_region = [], r_inn = [], r_ogrn = [], r_message = []\<rparr>"

text \<open>
  \<open>parse_results\<close> of \<open>rmsp_parser.py\<close>, stage by stage. First the three early returns:
  the first \<open>div\<close> whose class has \<open>alert\<close> or \<open>warning\<close> in it, when its text says that nothing
  was found; the first string with "Uvazhaemyi polzovatel", when the text of its parent
  says so; the first string with the counter, when the count is zero.
\<close>

definition warning_stage :: "node \<Rightarrow> lookup option" where
  "warning_stage soup =
     (case find_tag (\<lambda>x. tag_name x = asc ''div'' \<and> class_matches True alert_rx x) soup of
        None \<Rightarrow> None
      | Some warning_block \<Rightarrow>
          (let warning_text = get_text_strip warning_block
           in if list_ex (contains (lower warning_text)) [w_not_found, w_not_found_short, w_absent]
              then Some (default_lookup\<lparr>r_found := False, r_message := warning_text\<rparr>)
              else None))"

definition user_message_stage :: "node \<Rightarrow> lookup option" where
  "user_message_stage soup =
     (case find_string False (lit dear_user) soup of
        None \<Rightarrow> None
      | Some (user_message, parent) \<Rightarrow>
          (let message_text = get_text_strip parent
           in if contains (lower message_text) w_no_information
              then Some (default_lookup\<lparr>r_found := False, r_message := message_text\<rparr>)
              else None))"

definition counter_stage :: "node \<Rightarrow> py_error + lookup option" where
  "counter_stage soup =
     (case find_string False counter_rx soup of
        None \<Rightarrow> Inr None
      | Some (found_count, parent) \<Rightarrow>
          (case re_search False counter_rx found_count of
             None \<Rightarrow> Inr None
           | Some count_match \<Rightarrow>
               ebind (group1 count_match) (\<lambda>g.
               ebind (py_int g) (\<lambda>n.
                 if n = 0
                 then Inr (Some (default_lookup\<lparr>r_found := False, r_message := msg_no_records\<rparr>))
                 else Inr None))))"

text \<open>
  The table: the first \<open>table\<close>, its rows, and after the first row the first one with at
  least four cells. \<open>set_from_cell\<close> is \<open>if len(cells) > i: result[key] = cells[i].get_text(strip=True)\<close>.
  Once the row is there the number of its cells is printed, before any cell is read.
\<close>

definition set_from_cell :: "node list \<Rightarrow> nat \<Rightarrow> (pystr \<Rightarrow> lookup \<Rightarrow> lookup) \<Rightarrow> lookup \<Rightarrow> py_error + lookup"
  where
  "set_from_cell cells i upd r =
     (if length cells > i then ebind (item cells i) (\<lambda>c. Inr (upd (get_text_strip c) r)) else Inr r)"

definition set_exclusion :: "pystr \<Rightarrow> lookup \<Rightarrow> lookup" where
  "set_exclusion t r = (if t \<noteq> [] \<and> t \<noteq> [45] then r\<lparr>r_exclusion_date := t\<rparr> else r)"

definition set_group :: "rx \<Rightarrow> pystr \<Rightarrow> (pystr \<Rightarrow> lookup \<Rightarrow> lookup) \<Rightarrow> lookup \<Rightarrow> py_error + lookup"
  where
  "set_group r text upd res =
     (case re_search False r text of
        None \<Rightarrow> Inr res
      | Some m \<Rightarrow> ebind (group1 m) (\<lambda>g. Inr (upd g res)))"

definition name_of_cell :: "node \<Rightarrow> pystr" where
  "name_of_cell name_cell =
     (case find_tag (\<lambda>x. tag_name x = asc ''a'') name_cell of
        Some link \<Rightarrow> get_text_strip link
      | None \<Rightarrow> get_text_strip name_cell)"

definition fill_from_row :: "runtime \<Rightarrow> node \<Rightarrow> lookup \<Rightarrow> py_error + lookup" where
  "fill_from_row rt data_row result =
     (let cells = find_all [asc ''td'', asc ''th''] data_row;
          full_row_text = get_text data_row
      in ebind (py_print rt) (\<lambda>printed.
         ebind (if length cells > 0
                then ebind (item cells 0) (\<lambda>name_cell.
                       Inr (result\<lparr>r_found := True, r_organization_name := name_of_cell name_cell\<rparr>))
                else Inr (result\<lparr>r_found := True\<rparr>)) (\<lambda>r0.
         ebind (set_from_cell cells 1 (\<lambda>t r. r\<lparr>r_category := t\<rparr>) r0) (\<lambda>r1.
         ebind (set_from_cell cells 2 (\<lambda>t r. r\<lparr>r_region := t\<rparr>) r1) (\<lambda>r2.
         ebind (set_from_cell cells 3 (\<lambda>t r. r\<lparr>r_inclusion_date := t\<rparr>) r2) (\<lambda>r3.
         ebind (set_from_cell cells 4 set_exclusion r3) (\<lambda>r4.
         ebind (set_group inn_row_rx full_row_text (\<lambda>g r. r\<lparr>r_inn := g\<rparr>) r4) (\<lambda>r5.
         set_group ogrn_row_rx full_row_text (\<lambda>g r. r\<lparr>r_ogrn := g\<rparr>) r5))))))))"

definition table_stage :: "runtime \<Rightarrow> node \<Rightarrow> lookup \<Rightarrow> py_error + lookup" where
  "table_stage rt soup result =
     (case find_tag (\<lambda>x. tag_name x = asc ''table'') soup of
        None \<Rightarrow> Inr result
      | Some table \<Rightarrow>
          (let rows = find_all [asc ''tr''] table
           in if length rows > 1
              then (case find (\<lambda>row. length (find_all [asc ''td'', asc ''th''] row) \<ge> 4) (tl rows) of
                      None \<Rightarrow> Inr result
                    | Some data_row \<Rightarrow> fill_from_row rt data_row result)
              else Inr result))"

text \<open>
  The detail blocks, once something is found: every \<open>div\<close> whose \<open>.string\<close> has a label in
  it, in document order; a field already set is kept. \<open>find_all_div_string\<close> is
  \<open>find_all('div', string=pattern)\<close>: it reads \<open>.string\<close> of every \<open>div\<close> and has the whole
  list before the first block is looked at.
\<close>

definition detail_block :: "node \<Rightarrow> lookup \<Rightarrow> py_error + lookup" where
  "detail_block block result =
     (let text = get_text block
      in ebind (if contains text (label_inn @ [58]) \<and> r_inn result = []
                then set_group inn_detail_rx text (\<lambda>g r. r\<lparr>r_inn := g\<rparr>) result
                else Inr result) (\<lambda>r1.
         if contains text (label_ogrn @ [58]) \<and> r_ogrn r1 = []
         then set_group ogrn_detail_rx text (\<lambda>g r. r\<lparr>r_ogrn := g\<rparr>) r1
         else Inr r1))"

fun detail_blocks :: "node list \<Rightarrow> lookup \<Rightarrow> py_error + lookup" where
  "detail_blocks [] result = Inr result"
| "detail_blocks (block # rest) result = ebind (detail_block block result) (detail_blocks rest)"

fun find_all_div_string :: "nat \<Rightarrow> rx \<Rightarrow> node list \<Rightarrow> py_error + node list" where
  "find_all_div_string d r [] = Inr []"
| "find_all_div_string d r (x # xs) =
     (if is_tag x \<and> tag_name x = asc ''div''
      then ebind (tag_string d x) (\<lambda>string.
           ebind (find_all_div_string d r xs) (\<lambda>rest.
             Inr (if (case string of None \<Rightarrow> False | Some t \<Rightarrow> re_search False r t \<noteq> None)
                  then x # rest else rest)))
      else find_all_div_string d r xs)"

definition detail_stage :: "runtime \<Rightarrow> node \<Rightarrow> lookup \<Rightarrow> py_error + lookup" where
  "detail_stage rt soup result =
     (if r_found result
      then ebind (find_all_div_string (string_depth rt) detail_rx (descendants soup))
             (\<lambda>blocks. detail_blocks blocks result)
      else Inr result)"

text \<open>
  The selectors, when the table gave nothing: the first selector that matches sets the
  name, and the cells of the row around the element, when there are at least four.
\<close>

definition name_selectors :: "selector list" where
  "name_selectors =
     [A_href_view, Class_is (asc ''organization-name''), Class_is (asc ''company-name''),
      Td_first_child_a]"

definition fill_from_selected :: "entry \<Rightarrow> lookup \<Rightarrow> py_error + lookup" where
  "fill_from_selected name_element result =
     (let r0 = result\<lparr>r_found := True, r_organization_name := get_text_strip (fst name_element)\<rparr>
      in case find_parent (asc ''tr'') name_element of
           None \<Rightarrow> Inr r0
         | Some row \<Rightarrow>
             (let cells = find_all [asc ''td''] row
              in if length cells \<ge> 4
                 then ebind (if length cells > 1
                             then set_from_cell cells 1 (\<lambda>t r. r\<lparr>r_category := t\<rparr>) r0
                             else Inr (r0\<lparr>r_category := []\<rparr>)) (\<lambda>r1.
                      ebind (if length cells > 2
                             then set_from_cell cells 2 (\<lambda>t r. r\<lparr>r_region := t\<rparr>) r1
                             else Inr (r1\<lparr>r_region := []\<rparr>)) (\<lambda>r2.
                      ebind (if length cells > 3
                             then set_from_cell cells 3 (\<lambda>t r. r\<lparr>r_inclusion_date := t\<rparr>) r2
                             else Inr (r2\<lparr>r_inclusion_date := []\<rparr>)) (\<lambda>r3.
                      set_from_cell cells 4 set_exclusion r3)))
                 else Inr r0))"

fun try_selectors :: "selector list \<Rightarrow> node \<Rightarrow> lookup \<Rightarrow> py_error + lookup" where
  "try_selectors [] soup result = Inr result"
| "try_selectors (sel # rest) soup result =
     (case select_one sel soup of
        None \<Rightarrow> try_selectors rest soup result
      | Some name_element \<Rightarrow> fill_from_selected name_element result)"

text \<open>
  The keywords, when the selectors gave nothing either: the text of the page must have
  \<open>RSMP_CATEGORY\<close> and one of the four categories in it; the category is the first of the
  four, in their order, that the text has.
\<close>

definition keyword_stage :: "node \<Rightarrow> lookup \<Rightarrow> lookup" where
  "keyword_stage soup result =
     (let page_text = get_text soup
      in if contains page_text (asc ''RSMP_CATEGORY'') \<and>
            list_ex (contains page_text) [cat_micro, cat_small, cat_medium, cat_not_msp]
         then (let r0 = result\<lparr>r_found := True, r_organization_name := name_to_be_checked\<rparr>
               in if contains page_text cat_micro then r0\<lparr>r_category := cat_micro\<rparr>
                  else if contains page_text cat_small then r0\<lparr>r_category := cat_small\<rparr>
                  else if contains page_text cat_medium then r0\<lparr>r_category := cat_medium\<rparr>
                  else if contains page_text cat_not_msp then r0\<lparr>r_category := cat_not_msp\<rparr>
                  else r0)
         else result)"

text \<open>
  The exclusion date from the text of the page, for the category that has one. A line is
  printed before the search and another one after the first pattern that is found.
\<close>

fun first_exclusion :: "runtime \<Rightarrow> rx list \<Rightarrow> pystr \<Rightarrow> lookup \<Rightarrow> py_error + lookup" where
  "first_exclusion rt [] text result = Inr result"
| "first_exclusion rt (pattern # rest) text result =
     (case re_search True pattern text of
        None \<Rightarrow> first_exclusion rt rest text result
      | Some exclusion_match \<Rightarrow>
          ebind (group1 exclusion_match) (\<lambda>g.
          ebind (py_print rt) (\<lambda>printed. Inr (result\<lparr>r_exclusion_date := g\<rparr>))))"

definition exclusion_stage :: "runtime \<Rightarrow> node \<Rightarrow> lookup \<Rightarrow> py_error + lookup" where
  "exclusion_stage rt soup result =
     (if r_found result \<and> r_category result = cat_not_msp \<and> r_exclusion_date result = []
      then ebind (py_print rt) (\<lambda>printed.
             first_exclusion rt exclusion_patterns (get_text soup) result)
      else Inr result)"

text \<open>
  The whole of \<open>parse_results\<close>. Its first statement hands the markup to
  \<open>BeautifulSoup(html_content, 'html.parser')\<close>, which raises or builds the tree;
  \<open>parsed\<close> is that outcome, and an exception of the parser leaves \<open>parse_results\<close> as it is.
\<close>

definition parse_results :: "runtime \<Rightarrow> py_error + node \<Rightarrow> py_error + lookup" where
  "parse_results rt parsed =
     ebind parsed (\<lambda>soup.
     (case warning_stage soup of
        Some result \<Rightarrow> Inr result
      | None \<Rightarrow>
     (case user_message_stage soup of
        Some result \<Rightarrow> Inr result
      | None \<Rightarrow>
     ebind (counter_stage soup) (\<lambda>counted.
     (case counted of
        Some result \<Rightarrow> Inr result
      | None \<Rightarrow>
     ebind (table_stage rt soup default_lookup) (\<lambda>r1.
     ebind (detail_stage rt soup r1) (\<lambda>r2.
     ebind (if r_found r2 then Inr r2
            else ebind (try_selectors name_selectors soup r2) (\<lambda>r3.
                   Inr (if r_found r3 then r3 else keyword_stage soup r3))) (\<lambda>r4.
     exclusion_stage rt soup r4))))))))"


text \<open>
  \<open>parse_search_results\<close> of \<open>rmsp_no_chrome.py\<close> and \<open>rmsp_playwright.py\<close> (the same function
  in both): a smaller dictionary, the banner, the table, and keywords looked for in the
  lowered text of the page, with the first date in the text as the inclusion date.
\<close>

record sresult =
  s_found :: bool
  s_category :: pystr
  s_inclusion_date :: pystr
  s_message :: pystr

definition default_sresult :: sresult where
  "default_sresult = \<lparr>s_found = False, s_category = [45], s_inclusion_date = [45], s_message = []\<rparr>"

definition keyword_search :: "node \<Rightarrow> sresult \<Rightarrow> sresult" where
  "keyword_search soup result =
     (let page_text = lower (get_text soup);
          r1 = (if contains page_text kw_micro then result\<lparr>s_found := True, s_category := cat_micro\<rparr>
                else if contains page_text kw_small then result\<lparr>s_found := True, s_category := cat_small\<rparr>
                else if contains page_text kw_medium then result\<lparr>s_found := True, s_category := cat_medium\<rparr>
                else result)
      in if s_found r1
         then (case re_search False date_rx (get_text soup) of
                 None \<Rightarrow> r1
               | Some m \<Rightarrow> r1\<lparr>s_inclusion_date := m_text (get_text soup) m\<rparr>)
         else r1)"

definition table_search :: "node \<Rightarrow> sresult \<Rightarrow> py_error + sresult" where
  "table_search soup result =
     (case find_tag (\<lambda>x. tag_name x = asc ''table'') soup of
        None \<Rightarrow> Inr result
      | Some table \<Rightarrow>
          (let rows = find_all [asc ''tr''] table
           in if length rows > 1
              then (case find (\<lambda>row. length (find_all [asc ''td'', asc ''th''] row) \<ge> 4) (tl rows) of
                      None \<Rightarrow> Inr result
                    | Some row \<Rightarrow>
                        (let cells = find_all [asc ''td'', asc ''th''] row
                         in ebind (if length cells > 1
                                   then ebind (item cells 1) (\<lambda>c. Inr (get_text_strip c))
                                   else Inr [45]) (\<lambda>category.
                            ebind (if length cells > 3
                                   then ebind (item cells 3) (\<lambda>c. Inr (get_text_strip c))
                                   else Inr [45]) (\<lambda>inclusion.
                            Inr (result\<lparr>s_found := True, s_category := category,
                                        s_inclusion_date := inclusion\<rparr>)))))
              else Inr result))"

definition banner_found :: "node \<Rightarrow> bool" where
  "banner_found soup =
     (case find_string False (lit dear_user) soup of
        None \<Rightarrow> False
      | Some (user_message, parent) \<Rightarrow> contains (lower (get_text parent)) w_no_information)"

definition parse_search_results :: "node \<Rightarrow> py_error + sresult" where
  "parse_search_results soup =
     (if banner_found soup then Inr (default_sresult\<lparr>s_message := msg_not_in_registry\<rparr>)
      else ebind (table_search soup default_sresult) (\<lambda>r1.
             Inr (if s_found r1 then r1 else keyword_search soup r1)))"

section \<open>The lookup and what it does to the world\<close>

text \<open>
  \<open>search_by_inn\<close> of \<open>rmsp_parser.py\<close> with what it calls, and \<open>search_rmsp_playwright\<close> of
  \<open>rmsp_playwright.py\<close>. What a call does to the world is a list of events, in the order
  they happen: a line printed (with the line of the source that prints it), the request
  for the status of ChromeDriver, the request for a browser session, and the commands sent
  to the browser. A call gives its events and its outcome, an exception or a value.
\<close>

datatype event =
    Printed nat
  | Status_request
  | Session_request
  | Implicit_wait
  | Page_load
  | Element_wait
  | Input_cleared
  | Keys_sent pystr
  | Clicked
  | Page_read
  | Window_close
  | Browser_launch
  | Field_filled pystr

type_synonym 'a io = "event list \<times> (py_error + 'a)"

fun is_print :: "event \<Rightarrow> bool" where
  "is_print (Printed l) = True"
| "is_print e = False"

text \<open>
  The world answers: whether the standard output takes the line printed at a line of the
  source (\<open>print\<close> raises \<open>UnicodeEncodeError\<close> otherwise, and nothing is written); the
  status code of ChromeDriver or the exception of \<open>requests.get\<close>; whether
  \<open>webdriver.Remote\<close> and \<open>implicitly_wait\<close> raise. The dialogue with the browser, lines 117
  to 196 of \<open>search_with_selenium\<close>, is the world's as a whole: for the text typed in, the
  events and the outcome. So is the browser session of Playwright, lines 42 to 149.
\<close>

record world =
  stdout_takes :: "nat \<Rightarrow> bool"
  status_reply :: "py_error + nat"
  remote_reply :: "py_error + unit"
  implicitly_wait_reply :: "py_error + unit"
  dialogue :: "pystr \<Rightarrow> lookup option io"
  playwright_session :: "pystr \<Rightarrow> sresult io"

definition io_return :: "'a \<Rightarrow> 'a io" where
  "io_return x = ([], Inr x)"

definition io_bind :: "'a io \<Rightarrow> ('a \<Rightarrow> 'b io) \<Rightarrow> 'b io" where
  "io_bind m f =
     (case m of
        (es, Inl e) \<Rightarrow> (es, Inl e)
      | (es, Inr x) \<Rightarrow> (case f x of (es', y) \<Rightarrow> (es @ es', y)))"

text \<open>\<open>try: m except Exception as e: h\<close>, and \<open>try: m finally:\<close> with a final part that cannot raise.\<close>

definition io_except :: "'a io \<Rightarrow> (py_error \<Rightarrow> 'a io) \<Rightarrow> 'a io" where
  "io_except m h =
     (case m of
        (es, Inl e) \<Rightarrow> (case h e of (es', y) \<Rightarrow> (es @ es', y))
      | (es, Inr x) \<Rightarrow> (es, Inr x))"

definition io_finally :: "'a io \<Rightarrow> event list \<Rightarrow> 'a io" where
  "io_finally m final = (fst m @ final, snd m)"

definition io_call :: "event \<Rightarrow> py_error + 'a \<Rightarrow> 'a io" where
  "io_call ev reply = ([ev], reply)"

definition print_at :: "world \<Rightarrow> nat \<Rightarrow> unit io" where
  "print_at w l = (if stdout_takes w l then ([Printed l], Inr ()) else ([], Inl UnicodeEncodeError))"

fun prints_at :: "world \<Rightarrow> nat list \<Rightarrow> unit io" where
  "prints_at w [] = io_return ()"
| "prints_at w (l # ls) = io_bind (print_at w l) (\<lambda>printed. prints_at w ls)"

text \<open>
  \<open>setup_chrome_driver\<close>: the driver (\<open>True\<close>) or \<open>None\<close> (\<open>False\<close>). Both handlers print and
  return \<open>None\<close>; the first is for \<open>requests.exceptions.ConnectionError\<close>.
\<close>

definition setup_chrome_driver :: "world \<Rightarrow> bool io" where
  "setup_chrome_driver w =
     io_except
       (io_bind (print_at w 67) (\<lambda>printed.
        io_bind (io_call Status_request (status_reply w)) (\<lambda>status_code.
          if status_code \<noteq> 200
          then io_bind (print_at w 72) (\<lambda>printed. io_return False)
          else io_bind (io_call Session_request (remote_reply w)) (\<lambda>driver.
               io_bind (io_call Implicit_wait (implicitly_wait_reply w)) (\<lambda>waited.
               io_bind (print_at w 90) (\<lambda>printed. io_return True))))))
       (\<lambda>e. if e = ConnectionError
            then io_bind (prints_at w [94, 95, 96]) (\<lambda>printed. io_return False)
            else io_bind (print_at w 99) (\<lambda>printed. io_return False))"

text \<open>
  \<open>search_with_selenium\<close>: without a driver \<open>None\<close>; with one, the dialogue, any exception
  of which is printed and turned into \<open>None\<close>, and at the end \<open>driver.close()\<close>, whose own
  exceptions are dropped.
\<close>

definition search_with_selenium :: "world \<Rightarrow> pystr \<Rightarrow> lookup option io" where
  "search_with_selenium w inn =
     io_bind (setup_chrome_driver w) (\<lambda>driver.
       if \<not> driver then io_return None
       else io_finally
              (io_except (dialogue w inn) (\<lambda>e. io_bind (print_at w 199) (\<lambda>printed. io_return None)))
              [Window_close])"

text \<open>\<open>display_results\<close> for a dictionary: lines printed, which ones depends on the result.\<close>

definition display_results :: "world \<Rightarrow> lookup \<Rightarrow> unit io" where
  "display_results w result =
     io_bind (prints_at w [452, 453, 454]) (\<lambda>printed.
     io_bind (if \<not> r_found result
              then io_bind (prints_at w [458, 459, 460]) (\<lambda>printed.
                   if r_message result \<noteq> [] then print_at w 463 else io_return ())
              else io_bind (prints_at w [465, 469, 473]) (\<lambda>printed.
                   io_bind (if r_category result = cat_not_msp then print_at w 478 else io_return ())
                     (\<lambda>printed.
                   if r_organization_name result \<noteq> [] \<and>
                      \<not> contains (r_organization_name result) (asc ''JavaScript'')
                   then print_at w 482 else io_return ()))) (\<lambda>printed.
     print_at w 484))"

text \<open>
  \<open>search_by_inn\<close>: the identifier is validated first; a rejected one is answered with two
  printed lines and \<open>None\<close>, an accepted one goes to \<open>search_with_selenium\<close> as the validator
  returned it.
\<close>

definition search_by_inn :: "world \<Rightarrow> pystr option \<Rightarrow> lookup option io" where
  "search_by_inn w inn =
     (case validate_inn inn of
        None \<Rightarrow> io_bind (prints_at w [420, 421]) (\<lambda>printed. io_return None)
      | Some validated_inn \<Rightarrow>
          io_bind (prints_at w [424, 425]) (\<lambda>printed.
          io_bind (search_with_selenium w validated_inn) (\<lambda>result.
          io_bind (case result of
                     Some found \<Rightarrow> display_results w found
                   | None \<Rightarrow> prints_at w [433, 434, 435, 436, 437]) (\<lambda>printed.
          io_return result))))"

text \<open>
  \<open>search_rmsp_playwright\<close>, awaited. A rejected identifier is answered with a dictionary
  whose message is "Nekorrektnyi INN: " and the identifier as \<open>str\<close> writes it.
\<close>

definition msg_bad_inn :: pystr where \<comment> \<open>Nekorrektnyi INN: \<close>
  "msg_bad_inn = [1053, 1077, 1082, 1086, 1088, 1088, 1077, 1082, 1090, 1085, 1099, 1081, 32, 1048, 1053, 1053, 58, 32]"

definition py_str :: "pystr option \<Rightarrow> pystr" where
  "py_str v = (case v of None \<Rightarrow> asc ''None'' | Some s \<Rightarrow> s)"

definition search_rmsp_playwright :: "world \<Rightarrow> pystr option \<Rightarrow> sresult io" where
  "search_rmsp_playwright w inn =
     (case validate_inn inn of
        None \<Rightarrow> io_return (default_sresult\<lparr>s_message := msg_bad_inn @ py_str inn\<rparr>)
      | Some validated_inn \<Rightarrow>
          io_bind (prints_at w [39, 40]) (\<lambda>printed. playwright_session w validated_inn))"

section \<open>Example documents\<close>

text \<open>
  The trees of some pages: a results table (a header row and one row of five cells), alone
  and after an alert that says nothing, after the banner, after a counter; pages with
  nothing but a category in their text.
\<close>

definition utf8_runtime :: runtime where
  "utf8_runtime = \<lparr>print_ok = True, string_depth = 900\<rparr>"

definition td :: "pystr \<Rightarrow> node" where "td t = Tag (asc ''td'') [] [Str Plain t]"
definition results_table :: "pystr \<Rightarrow> pystr \<Rightarrow> node" where
  "results_table cat excl = Tag (asc ''table'') []
     [Tag (asc ''tr'') [] [Tag (asc ''th'') [] [Str Plain (asc ''Name'')]],
      Tag (asc ''tr'') [] [td (asc ''OOO ROMASHKA''), td cat, td (asc ''77''), td (asc ''01.08.2016''), td excl]]"

definition doc_table :: node where
  "doc_table = Tag (asc ''[document]'') [] [results_table cat_micro (asc ''10.07.2020'')]"

definition alert_block :: node where
  "alert_block = Tag (asc ''div'') [(asc ''class'', asc ''alert alert-warning'')] [Str Plain w_not_found]"

definition doc_alert :: node where
  "doc_alert = Tag (asc ''[document]'') [] [alert_block, results_table cat_micro (asc ''-'')]"

definition doc_two_alerts :: node where
  "doc_two_alerts = Tag (asc ''[document]'') []
     [Tag (asc ''div'') [(asc ''class'', asc ''alert alert-info'')] [Str Plain (asc ''Cookies'')],
      alert_block,
      results_table cat_micro (asc ''-'')]"

definition doc_banner :: node where
  "doc_banner = Tag (asc ''[document]'') []
     [Tag (asc ''div'') [] [Str Plain (dear_user @ asc ''! '' @ w_no_information)],
      results_table cat_micro (asc ''-'')]"

definition doc_counter :: node where
  "doc_counter = Tag (asc ''[document]'') []
     [Tag (asc ''span'') [] [Str Plain (counter_label @ asc '' 0'')],
      results_table cat_micro (asc ''-'')]"

definition doc_keyword :: node where
  "doc_keyword = Tag (asc ''[document]'') []
     [Tag (asc ''p'') [] [Str Plain (cat_small @ asc '' 01.02.2020'')]]"

definition doc_split_counter :: node where
  "doc_split_counter = Tag (asc ''[document]'') []
     [Tag (asc ''div'') [] [Str Plain (counter_label @ asc '' ''), Tag (asc ''b'') [] [Str Plain (asc ''0'')]],
      results_table cat_micro (asc ''-'')]"

definition doc_two_counters :: node where
  "doc_two_counters = Tag (asc ''[document]'') []
     [Tag (asc ''p'') [] [Str Plain (counter_label @ asc '' 3'')],
      Tag (asc ''p'') [] [Str Plain (counter_label @ asc '' 0'')],
      results_table cat_micro (asc ''-'')]"

definition doc_keyword_marker :: node where
  "doc_keyword_marker = Tag (asc ''[document]'') []
     [Tag (asc ''p'') [] [Str Plain (asc ''RSMP_CATEGORY: '' @ cat_small @ asc '' 01.02.2020'')]]"



definition doc_nested :: node where
  "doc_nested = Tag (asc ''[document]'') []
     [results_table cat_micro (asc ''-''),
      Tag (asc ''div'') [] [Tag (asc ''span'') [] [Tag (asc ''b'') [] [Str Plain (asc ''77'')]]]]"

text \<open>
  A world in which everything works: the standard output takes every line, ChromeDriver
  answers, the form of the site is there at once, the text is typed, the button clicked,
  and the page read says that nothing was found.
\<close>

definition no_records :: lookup where
  "no_records = default_lookup\<lparr>r_message := msg_no_records\<rparr>"

definition working_world :: world where
  "working_world =
     \<lparr>stdout_takes = (\<lambda>l. True), status_reply = Inr 200, remote_reply = Inr (),
      implicitly_wait_reply = Inr (),
      dialogue = (\<lambda>inn. ([Printed 117, Page_load, Element_wait, Printed 126, Input_cleared,
                            Keys_sent inn, Printed 143, Element_wait, Clicked, Printed 165,
                            Printed 173, Element_wait, Printed 184, Page_read],
                           Inr (Some no_records))),
      playwright_session = (\<lambda>inn. ([Browser_launch, Printed 53, Page_load, Printed 57,
                                      Element_wait, Printed 73, Clicked, Field_filled [],
                                      Field_filled inn, Printed 91, Element_wait, Clicked,
                                      Printed 109, Printed 120, Element_wait, Page_read,
                                      Window_close],
                                     Inr (default_sresult\<lparr>s_message := msg_not_in_registry\<rparr>)))\<rparr>"

section \<open>Evaluation\<close>

text \<open>The equations that evaluate text and patterns at a concrete input.\<close>

lemmas text_eval = asc_def is_space_def digit_val_def is_digit_def nd_starts_def
  lower_cp_def upper_cp_def fold_cp_def lower_def strip_def remove_char_def digits_value_def py_int_def
  int_max_str_digits_def

lemmas rx_eval = in_set_def rep_counts_def match_at_def re_match_def re_search_def
  m_text_def

lemmas tree_eval = entries_def descendants_def find_all_def find_tag_def find_string_def
  containers_def interesting_def all_strings_def get_text_def get_text_strip_def
  classes_def class_matches_def select_one_def find_parent_def item_def

lemmas phrase_eval = w_not_found_def w_not_found_short_def w_absent_def w_no_information_def
  dear_user_def counter_label_def msg_no_records_def label_inn_def label_ogrn_def
  name_to_be_checked_def msg_not_in_registry_def kw_micro_def kw_small_def
  kw_medium_def ex_date_of_exclusion_def ex_excluded_def ex_date_of_leaving_def
  ex_left_def ex_exclusion_def

lemmas parse_eval = alert_rx_def counter_rx_def colon_space_def inn_row_rx_def ogrn_row_rx_def
  detail_rx_def inn_detail_rx_def ogrn_detail_rx_def separator_def date_group_def
  cyrillic_letters_def exclusion_patterns_def date_rx_def ebind_def group1_def
  default_lookup_def warning_stage_def user_message_stage_def counter_stage_def
  set_from_cell_def set_exclusion_def set_group_def name_of_cell_def fill_from_row_def
  table_stage_def detail_block_def detail_stage_def name_selectors_def py_print_def
  fill_from_selected_def keyword_stage_def exclusion_stage_def parse_results_def
  default_sresult_def keyword_search_def table_search_def banner_found_def
  parse_search_results_def

lemmas doc_eval = td_def results_table_def doc_table_def alert_block_def doc_alert_def
  doc_two_alerts_def doc_banner_def
  doc_counter_def doc_keyword_def doc_split_counter_def doc_two_counters_def
  doc_keyword_marker_def utf8_runtime_def doc_nested_def

lemmas batch_eval = cat_micro_def cat_small_def cat_medium_def cat_not_msp_def
  always_returns_def always_raises_def default_robot_def process_single_inn_def placeholders_def
  add_output_columns_def exclusion_cell_def process_row_def process_excel_file_def

lemmas date_eval = is_leap_def days_in_month_def valid_date_def make_date_def date_less_def
  any_digit_def strptime_def date_formats_def parse_date_def compare_dates_def
  yes_ru_def no_ru_def two_digits_def four_digits_def format_dmY_def

lemmas all_eval = doc_eval parse_eval phrase_eval tree_eval batch_eval date_eval rx_eval text_eval

lemmas io_eval = io_return_def io_bind_def io_except_def io_finally_def io_call_def print_at_def
  setup_chrome_driver_def search_with_selenium_def display_results_def search_by_inn_def
  py_str_def search_rmsp_playwright_def no_records_def working_world_def

section \<open>Reading a date written as dd.mm.yyyy\<close>

text \<open>How the pattern of \<open>%d.%m.%Y\<close> runs over two digits, a point, two digits, a point, four digits.\<close>

lemma digit_val_ascii: "k < 10 \<Longrightarrow> digit_val (48 + k) = Some k"
  by (simp add: digit_val_def nd_starts_def)

lemma is_digit_ascii: "k < 10 \<Longrightarrow> is_digit (48 + k)"
  by (simp add: is_digit_def digit_val_ascii)

lemma is_digit_range: "48 \<le> c \<Longrightarrow> c \<le> 57 \<Longrightarrow> is_digit c"
  using is_digit_ascii [of "c - 48"] by simp

lemma not_space_ascii_digit: "k < 10 \<Longrightarrow> \<not> is_space (48 + k)"
  by (simp add: is_space_def)

lemma fold_cp_low: "c < 65 \<Longrightarrow> fold_cp c = c"
  by (simp add: fold_cp_def lower_cp_def)

lemma upper_cp_low: "c < 97 \<Longrightarrow> upper_cp c = c"
  by (simp add: upper_cp_def)

lemma upt_32: "[1..<32] = [1,2,3,4,5,6,7,8,9,10,11,12,13,14,15,16,17,18,19,20,21,22,23,24,25,26,27,28,29,30,31::nat]"
  by (simp add: upt_rec)

lemma upt_13: "[1..<13] = [1,2,3,4,5,6,7,8,9,10,11,12::nat]"
  by (simp add: upt_rec)

lemma run_day_all:
  "\<forall>d\<in>set [1..<32]. rx_run True (directive_rx Dir_d) (p, g, two_digits d @ rest)
      = (Suc (Suc p), g @ [two_digits d], rest) #
        (if 10 \<le> d then [(Suc p, g @ [[48 + d div 10]], (48 + d mod 10) # rest)] else [])"
  unfolding upt_32
  by (simp add: two_digits_def any_digit_def in_set_def is_digit_range fold_cp_low upper_cp_low)

lemma run_month_all:
  "\<forall>m\<in>set [1..<13]. rx_run True (directive_rx Dir_m) (p, g, two_digits m @ rest)
      = (Suc (Suc p), g @ [two_digits m], rest) #
        (if 10 \<le> m then [(Suc p, g @ [[48 + m div 10]], (48 + m mod 10) # rest)] else [])"
  unfolding upt_13
  by (simp add: two_digits_def any_digit_def in_set_def is_digit_range fold_cp_low upper_cp_low)

lemma run_year:
  "rx_run True (directive_rx Dir_Y) (p, g, four_digits y @ rest) = [(p + 4, g @ [four_digits y], rest)]"
  by (simp add: four_digits_def any_digit_def in_set_def is_digit_ascii)

lemma digits_sum:
  "1000 * (n div 1000) + 100 * (n div 100 mod 10) + 10 * (n div 10 mod 10) + n mod 10 = (n::nat)"
proof -
  define q1 where "q1 = n div 10"
  define q2 where "q2 = q1 div 10"
  define q3 where "q3 = q2 div 10"
  define r0 where "r0 = n mod 10"
  define r1 where "r1 = q1 mod 10"
  define r2 where "r2 = q2 mod 10"
  have a: "n div 100 = q2" by (simp add: q1_def q2_def div_mult2_eq)
  have b: "n div 1000 = q3" by (simp add: q1_def q2_def q3_def div_mult2_eq)
  have e1: "10 * q1 + r0 = n" by (simp add: q1_def r0_def)
  have e2: "10 * q2 + r1 = q1" by (simp add: q2_def r1_def)
  have e3: "10 * q3 + r2 = q2" by (simp add: q3_def r2_def)
  have "1000 * q3 + 100 * r2 + 10 * r1 + r0 = n" using e1 e2 e3 by linarith
  then show ?thesis by (simp add: a b q1_def [symmetric] r0_def r1_def r2_def)
qed

lemma py_int_two_digits: "n < 100 \<Longrightarrow> py_int (two_digits n) = Inr n"
  by (simp add: py_int_def int_max_str_digits_def strip_def two_digits_def not_space_ascii_digit
      is_digit_ascii digits_value_def digit_val_ascii)

lemma py_int_four_digits: "n < 10000 \<Longrightarrow> py_int (four_digits n) = Inr n"
  by (simp add: py_int_def int_max_str_digits_def strip_def four_digits_def not_space_ascii_digit is_digit_ascii
      digits_value_def digit_val_ascii digits_sum)

lemma fold_cp_digit: "fold_cp (48 + k mod 10) = 48 + k mod 10"
proof -
  have "k mod 10 < 10" by simp
  then show ?thesis by (simp add: fold_cp_low)
qed

lemma run_day_dot:
  assumes "d \<in> set [1..<32]"
  shows "rx_run True (Cat (directive_rx Dir_d) (Cat (Set [CChar 46]) r)) (p, g, two_digits d @ 46 # rest)
         = rx_run True r (Suc (Suc (Suc p)), g @ [two_digits d], rest)"
  using run_day_all [rule_format, OF assms, of p g "46 # rest"]
  by (simp add: in_set_def fold_cp_digit fold_cp_low del: directive_rx.simps)

lemma run_month_dot:
  assumes "m \<in> set [1..<13]"
  shows "rx_run True (Cat (directive_rx Dir_m) (Cat (Set [CChar 46]) r)) (p, g, two_digits m @ 46 # rest)
         = rx_run True r (Suc (Suc (Suc p)), g @ [two_digits m], rest)"
  using run_month_all [rule_format, OF assms, of p g "46 # rest"]
  by (simp add: in_set_def fold_cp_digit fold_cp_low del: directive_rx.simps)

lemma run_dmY:
  assumes "d \<in> set [1..<32]" "m \<in> set [1..<13]"
  shows "rx_run True (format_rx [Directive Dir_d, Literal 46, Directive Dir_m, Literal 46, Directive Dir_Y])
           (0, [], two_digits d @ [46] @ two_digits m @ [46] @ four_digits y)
         = [(10, [two_digits d, two_digits m, four_digits y], [])]"
proof -
  have six: "Suc (Suc (Suc (Suc (Suc (Suc 0))))) = 6" by simp
  show ?thesis
    using run_year [of 6 "[two_digits d, two_digits m]" y "[]"]
    by (simp add: six run_day_dot [OF assms(1)] run_month_dot [OF assms(2)]
        del: directive_rx.simps rx_run.simps)
qed

lemma strip_format_dmY: "strip (format_dmY x) = format_dmY x"
proof -
  have a: "d_day x div 10 mod 10 < 10" and b: "d_year x mod 10 < 10" by simp_all
  show ?thesis
    by (simp add: strip_def format_dmY_def two_digits_def four_digits_def
        not_space_ascii_digit [OF a] not_space_ascii_digit [OF b])
qed

lemma strptime_dmY:
  assumes "valid_date x"
  shows "strptime [Directive Dir_d, Literal 46, Directive Dir_m, Literal 46, Directive Dir_Y]
           (format_dmY x) = Inr x"
proof -
  have dim: "days_in_month (d_year x) (d_month x) \<le> 31" by (simp add: days_in_month_def)
  have d: "d_day x \<in> set [1..<32]" using assms dim by (simp add: valid_date_def)
  have m: "d_month x \<in> set [1..<13]" using assms by (simp add: valid_date_def)
  have d100: "d_day x < 100" and m100: "d_month x < 100" and y: "d_year x < 10000"
    using d m assms by (simp_all add: valid_date_def)
  have len: "length (format_dmY x) = 10"
    by (simp add: format_dmY_def two_digits_def four_digits_def)
  have run: "re_match True (format_rx [Directive Dir_d, Literal 46, Directive Dir_m, Literal 46, Directive Dir_Y])
               (format_dmY x)
             = Some \<lparr>m_start = 0, m_end = 10,
                  m_groups = [two_digits (d_day x), two_digits (d_month x), four_digits (d_year x)]\<rparr>"
    unfolding re_match_def match_at_def format_dmY_def
    using run_dmY [OF d m, of "d_year x"] by simp
  have eq: "\<lparr>d_year = d_year x, d_month = d_month x, d_day = d_day x\<rparr> = x"
    by (cases x) simp
  show ?thesis
    unfolding strptime_def run
    using assms
    by (simp add: len py_int_two_digits [OF d100] py_int_two_digits [OF m100]
        py_int_four_digits [OF y] make_date_def eq)
qed

lemma parse_date_format_dmY:
  assumes "valid_date x"
  shows "parse_date (Text (format_dmY x)) = Inr (Some x)"
proof -
  have ne: "format_dmY x \<noteq> []" by (simp add: format_dmY_def two_digits_def)
  show ?thesis
    by (simp add: parse_date_def ne strip_format_dmY date_formats_def strptime_dmY [OF assms])
qed

lemma set_fields_error: "set_fields kg ymd = Inl e \<Longrightarrow> e = ValueError"
proof (induction kg arbitrary: ymd)
  case Nil
  then show ?case by simp
next
  case (Cons a kg)
  obtain k g where a: "a = (k, g)" by (cases a)
  obtain y m d where ymd: "ymd = (y, m, d)" by (cases ymd)
  show ?case
    using Cons.prems Cons.IH
    by (cases k) (auto simp: a ymd py_int_def Let_def split: if_splits sum.splits)
qed

lemma strptime_error: "strptime f s = Inl e \<Longrightarrow> e = ValueError"
  by (auto simp: strptime_def make_date_def Let_def split: option.splits if_splits sum.splits prod.splits
      dest: set_fields_error)

lemma try_formats_total: "\<exists>r. try_formats fs s = Inr r"
  by (induction fs) (auto split: sum.splits dest: strptime_error)

lemma parse_date_total: "\<exists>r. parse_date v = Inr r"
  by (cases v) (simp_all add: parse_date_def try_formats_total)

lemma try_formats_blank: "try_formats date_formats [] = Inr None"
  by (simp add: date_formats_def strptime_def any_digit_def rx_eval)

lemma strip_blank: "list_all is_space s \<Longrightarrow> strip s = []"
  by (auto simp: strip_def list_all_iff dest: set_dropWhileD)

lemma try_formats_first:
  assumes "\<forall>g\<in>set pre. \<exists>e. strptime g s = Inl e" "strptime f s = Inr d"
  shows "try_formats (pre @ f # post) s = Inr (Some d)"
  using assms by (induction pre) (auto dest: strptime_error)

lemma try_formats_none:
  assumes "\<forall>g\<in>set fs. \<exists>e. strptime g s = Inl e"
  shows "try_formats fs s = Inr None"
  using assms by (induction fs) (auto dest: strptime_error)

section \<open>The loop over the rows\<close>

text \<open>
  Each row of the result is the loop body applied to the same row of the input: the loop
  never raises, keeps the number and order of the rows, and writes a row from nothing but
  that row and the parser's answer for it.
\<close>

lemma compare_dates_total: "\<exists>t. compare_dates c i = Inr t"
proof -
  obtain rc where rc: "parse_date c = Inr rc" using parse_date_total by blast
  obtain ri where ri: "parse_date i = Inr ri" using parse_date_total by blast
  show ?thesis by (simp add: compare_dates_def rc ri split: option.splits)
qed

lemma process_row_total: "\<exists>r'. process_row S r = Inr r'"
proof -
  obtain t where "compare_dates (row_contract r)
      (Text (inclusion_date_robot (process_single_inn S (row_inn r)))) = Inr t"
    using compare_dates_total by blast
  then show ?thesis by (simp add: process_row_def Let_def)
qed

lemma process_row_columns:
  assumes "process_row S r = Inr r'"
  shows "row_inn r' = row_inn r \<and> row_contract r' = row_contract r \<and>
         col_smsp r' = Text (smsp_robot (process_single_inn S (row_inn r))) \<and>
         col_category r' = Text (category_robot (process_single_inn S (row_inn r))) \<and>
         col_inclusion r' = Text (inclusion_date_robot (process_single_inn S (row_inn r))) \<and>
         col_exclusion r' = Text (exclusion_cell (exclusion_date_robot (process_single_inn S (row_inn r)))) \<and>
         (smsp_robot (process_single_inn S (row_inn r)) \<noteq> yes_ru \<longrightarrow> col_discrepancy r' = col_discrepancy r)"
  using assms by (auto simp: process_row_def Let_def split: if_splits sum.splits)

lemma process_rows_char:
  assumes "distinct is" "\<forall>i\<in>set is. i < length df"
  shows "\<exists>df'. process_rows S is df = Inr df' \<and> length df' = length df \<and>
           (\<forall>j<length df. df' ! j = (if j \<in> set is then projr (process_row (S j) (df ! j)) else df ! j))"
  using assms
proof (induction "is" arbitrary: df)
  case Nil
  then show ?case by simp
next
  case (Cons i rest)
  obtain r where r: "process_row (S i) (df ! i) = Inr r" using process_row_total by blast
  have i: "i < length df" and ni: "i \<notin> set rest" using Cons.prems by simp_all
  have "\<exists>df'. process_rows S rest (df[i := r]) = Inr df' \<and> length df' = length (df[i := r]) \<and>
           (\<forall>j<length (df[i := r]). df' ! j =
              (if j \<in> set rest then projr (process_row (S j) (df[i := r] ! j)) else df[i := r] ! j))"
    using Cons.prems by (intro Cons.IH) simp_all
  then obtain df' where d: "process_rows S rest (df[i := r]) = Inr df'" "length df' = length df"
      and e: "\<forall>j<length df. df' ! j =
              (if j \<in> set rest then projr (process_row (S j) (df[i := r] ! j)) else df[i := r] ! j)"
    by auto
  have "\<forall>j<length df. df' ! j = (if j \<in> set (i # rest) then projr (process_row (S j) (df ! j)) else df ! j)"
  proof (intro allI impI)
    fix j assume j: "j < length df"
    show "df' ! j = (if j \<in> set (i # rest) then projr (process_row (S j) (df ! j)) else df ! j)"
    proof (cases "j = i")
      case True
      then show ?thesis using e j ni i r by simp
    next
      case False
      then show ?thesis using e j by simp
    qed
  qed
  then show ?case using d r by simp
qed

lemma process_excel_file_rows:
  "\<exists>out. process_excel_file S h df = Inr out \<and> length out = length df \<and>
     (\<forall>j<length df. out ! j = projr (process_row (S j) (add_output_columns h df ! j)))"
proof -
  have "\<exists>df'. process_rows S [0..<length df] (add_output_columns h df) = Inr df' \<and>
          length df' = length (add_output_columns h df) \<and>
          (\<forall>j<length (add_output_columns h df). df' ! j =
             (if j \<in> set [0..<length df] then projr (process_row (S j) (add_output_columns h df ! j))
              else add_output_columns h df ! j))"
    by (intro process_rows_char) (simp_all add: add_output_columns_def)
  then show ?thesis by (auto simp: process_excel_file_def add_output_columns_def)
qed

section \<open>The extractor always returns\<close>


lemma ends_in_group_run:
  "ends_in_group r \<Longrightarrow> (p', g', s') \<in> set (rx_run ic r st) \<Longrightarrow> g' \<noteq> []"
proof (induction r arbitrary: st p' g' s')
  case (Cat a b)
  from Cat.prems obtain st1 where "(p', g', s') \<in> set (rx_run ic b st1)" by auto
  then show ?case using Cat.IH(2) Cat.prems(1) by simp
next
  case (Grp a)
  obtain p g s where st: "st = (p, g, s)" by (cases st)
  show ?case using Grp.prems by (auto simp: st)
qed simp_all


lemma first_some_Some: "first_some f xs = Some y \<Longrightarrow> \<exists>x\<in>set xs. f x = Some y"
  by (induction xs) (auto split: option.splits)

lemma match_at_Some:
  "match_at ic r i t = Some m \<Longrightarrow>
     \<exists>e s'. (e, m_groups m, s') \<in> set (rx_run ic r (i, [], drop i t)) \<and> m_start m = i \<and> m_end m = e"
  by (auto simp: match_at_def split: list.splits)

lemma re_search_Some:
  "re_search ic r t = Some m \<Longrightarrow>
     \<exists>i e s'. (e, m_groups m, s') \<in> set (rx_run ic r (i, [], drop i t))"
  unfolding re_search_def by (blast dest: first_some_Some match_at_Some)

lemma group1_total:
  assumes "ends_in_group r" "re_search ic r t = Some m"
  shows "\<exists>g. group1 m = Inr g"
proof -
  obtain i e s' where "(e, m_groups m, s') \<in> set (rx_run ic r (i, [], drop i t))"
    using re_search_Some [OF assms(2)] by blast
  then have "m_groups m \<noteq> []" using ends_in_group_run [OF assms(1)] by blast
  then show ?thesis by (simp add: group1_def item_def)
qed













lemma pattern_shapes:
  "ends_in_group inn_row_rx" "ends_in_group ogrn_row_rx"
  "ends_in_group inn_detail_rx" "ends_in_group ogrn_detail_rx"
  "\<forall>r\<in>set exclusion_patterns. ends_in_group r"
  by (simp_all add: inn_row_rx_def ogrn_row_rx_def inn_detail_rx_def ogrn_detail_rx_def
      exclusion_patterns_def date_group_def)










lemma first_exclusion_total:
  "print_ok rt \<Longrightarrow> \<forall>r\<in>set patterns. ends_in_group r \<Longrightarrow>
     \<exists>x. first_exclusion rt patterns t result = Inr x"
proof (induction patterns)
  case Nil
  then show ?case by simp
next
  case (Cons pat rest)
  show ?case
  proof (cases "re_search True pat t")
    case None
    then show ?thesis using Cons by simp
  next
    case (Some m)
    obtain g where "group1 m = Inr g" using group1_total [of pat True t m] Cons.prems Some by auto
    then show ?thesis using Some Cons.prems(1) by (simp add: ebind_def py_print_def)
  qed
qed

lemma exclusion_stage_total: "print_ok rt \<Longrightarrow> \<exists>x. exclusion_stage rt soup result = Inr x"
  by (simp add: exclusion_stage_def first_exclusion_total pattern_shapes py_print_def ebind_def)

text \<open>The search for the exclusion date changes nothing but the exclusion date.\<close>

lemma first_exclusion_keeps:
  "first_exclusion rt patterns t r = Inr x \<Longrightarrow>
     r_found x = r_found r \<and> r_category x = r_category r \<and>
     r_inclusion_date x = r_inclusion_date r \<and> r_organization_name x = r_organization_name r"
proof (induction patterns)
  case Nil
  then show ?case by simp
next
  case (Cons pat rest)
  then show ?case
    by (cases "re_search True pat t") (auto simp: ebind_def py_print_def split: sum.splits if_splits)
qed

lemma exclusion_stage_keeps:
  "exclusion_stage rt soup r = Inr x \<Longrightarrow>
     r_found x = r_found r \<and> r_category x = r_category r \<and>
     r_inclusion_date x = r_inclusion_date r \<and> r_organization_name x = r_organization_name r"
  by (auto simp: exclusion_stage_def ebind_def py_print_def split: if_splits dest: first_exclusion_keeps)









section \<open>Properties of the date reconciler\<close>

text \<open>
  C1. \<open>compare_dates\<close> returns the empty text whenever either argument does not parse
  under \<open>parse_date\<close>; when both parse it returns "da" exactly when the contract date is
  strictly earlier than the inclusion date and "net" otherwise, in particular for equal
  dates. \<open>parse_date\<close> itself never raises. The three examples of the specification are
  evaluated: an empty contract date, a contract before the inclusion, a contract after it.
\<close>

theorem compare_dates_outcome:
  "(parse_date c = Inr None \<or> parse_date i = Inr None \<longrightarrow> compare_dates c i = Inr []) \<and>
   (parse_date c = Inr (Some a) \<and> parse_date i = Inr (Some b) \<longrightarrow>
      compare_dates c i = Inr (if date_less a b then yes_ru else no_ru)) \<and>
   (parse_date c = Inr (Some a) \<and> parse_date i = Inr (Some a) \<longrightarrow> compare_dates c i = Inr no_ru) \<and>
   (\<exists>r. parse_date c = Inr r) \<and>
   compare_dates (Text []) (Text (asc ''01.01.2020'')) = Inr [] \<and>
   compare_dates (Text (asc ''01.01.2019'')) (Text (asc ''01.06.2020'')) = Inr yes_ru \<and>
   compare_dates (Text (asc ''01.06.2021'')) (Text (asc ''01.06.2020'')) = Inr no_ru \<and>
   yes_ru \<noteq> [] \<and> no_ru \<noteq> [] \<and> yes_ru \<noteq> no_ru"
proof -
  obtain rc where rc: "parse_date c = Inr rc" using parse_date_total by blast
  obtain ri where ri: "parse_date i = Inr ri" using parse_date_total by blast
  have general: "compare_dates c i =
      Inr (case (rc, ri) of (Some x, Some y) \<Rightarrow> if date_less x y then yes_ru else no_ru | _ \<Rightarrow> [])"
    by (simp add: compare_dates_def rc ri split: option.splits)
  have e1: "compare_dates (Text []) (Text (asc ''01.01.2020'')) = Inr []"
    by (simp add: text_eval rx_eval date_eval)
  have e2: "compare_dates (Text (asc ''01.01.2019'')) (Text (asc ''01.06.2020'')) = Inr yes_ru"
    by (simp add: text_eval rx_eval date_eval)
  have e3: "compare_dates (Text (asc ''01.06.2021'')) (Text (asc ''01.06.2020'')) = Inr no_ru"
    by (simp add: text_eval rx_eval date_eval)
  show ?thesis
    using general e1 e2 e3
    by (auto simp: rc ri date_less_def yes_ru_def no_ru_def split: option.splits)
qed

theorem compare_dates_outcome_witness:
  "parse_date (Text []) = Inr None \<and>
   compare_dates (Text []) (Text (asc ''01.01.2020'')) = Inr [] \<and>
   parse_date (Text (asc ''05.03.2019'')) = Inr (Some \<lparr>d_year = 2019, d_month = 3, d_day = 5\<rparr>) \<and>
   parse_date (Text (asc ''2020-01-15'')) = Inr (Some \<lparr>d_year = 2020, d_month = 1, d_day = 15\<rparr>) \<and>
   compare_dates (Text (asc ''05.03.2019'')) (Text (asc ''2020-01-15'')) = Inr yes_ru \<and>
   compare_dates (Text (asc ''05.03.2019'')) (Date \<lparr>d_year = 2019, d_month = 3, d_day = 5\<rparr>) = Inr no_ru"
proof -
  have p0: "parse_date (Text []) = Inr None" by (simp add: parse_date_def)
  have p1: "parse_date (Text (asc ''05.03.2019'')) = Inr (Some \<lparr>d_year = 2019, d_month = 3, d_day = 5\<rparr>)"
    by (simp add: text_eval rx_eval date_eval)
  have p2: "parse_date (Text (asc ''2020-01-15'')) = Inr (Some \<lparr>d_year = 2020, d_month = 1, d_day = 15\<rparr>)"
    by (simp add: text_eval rx_eval date_eval)
  have p3: "parse_date (Date \<lparr>d_year = 2019, d_month = 3, d_day = 5\<rparr>) = Inr (Some \<lparr>d_year = 2019, d_month = 3, d_day = 5\<rparr>)"
    by (simp add: parse_date_def)
  show ?thesis
    using p0 p1 p2 p3
      compare_dates_outcome [of "Text []" "Text (asc ''01.01.2020'')"]
      compare_dates_outcome [of "Text (asc ''05.03.2019'')" "Text (asc ''2020-01-15'')"
        "\<lparr>d_year = 2019, d_month = 3, d_day = 5\<rparr>" "\<lparr>d_year = 2020, d_month = 1, d_day = 15\<rparr>"]
      compare_dates_outcome [of "Text (asc ''05.03.2019'')" "Date \<lparr>d_year = 2019, d_month = 3, d_day = 5\<rparr>"
        "\<lparr>d_year = 2019, d_month = 3, d_day = 5\<rparr>"]
    by (simp add: date_less_def)
qed

text \<open>
  C8. \<open>parse_date\<close> tries its six formats in the declared order and returns the first
  parse that succeeds. Every valid calendar date, written as \<open>dd.mm.yyyy\<close>, parses back to
  itself (the first format reads it, so no two-digit-year format is reached). Text that
  no format reads, blank text, empty text and a missing value give \<open>None\<close>, not an error.
\<close>

theorem parse_date_round_trip:
  "(valid_date x \<longrightarrow> parse_date (Text (format_dmY x)) = Inr (Some x)) \<and>
   (s \<noteq> [] \<and> date_formats = pre @ f # post \<and>
      (\<forall>g\<in>set pre. \<exists>e. strptime g (strip s) = Inl e) \<and> strptime f (strip s) = Inr d \<longrightarrow>
      parse_date (Text s) = Inr (Some d)) \<and>
   ((\<forall>g\<in>set date_formats. \<exists>e. strptime g (strip s) = Inl e) \<longrightarrow> parse_date (Text s) = Inr None) \<and>
   (list_all is_space s \<longrightarrow> parse_date (Text s) = Inr None) \<and>
   parse_date Missing = Inr None \<and>
   date_formats =
     [[Directive Dir_d, Literal 46, Directive Dir_m, Literal 46, Directive Dir_Y],
      [Directive Dir_d, Literal 47, Directive Dir_m, Literal 47, Directive Dir_Y],
      [Directive Dir_Y, Literal 45, Directive Dir_m, Literal 45, Directive Dir_d],
      [Directive Dir_d, Literal 45, Directive Dir_m, Literal 45, Directive Dir_Y],
      [Directive Dir_d, Literal 46, Directive Dir_m, Literal 46, Directive Dir_y],
      [Directive Dir_d, Literal 47, Directive Dir_m, Literal 47, Directive Dir_y]]"
proof (intro conjI impI)
  assume "valid_date x"
  then show "parse_date (Text (format_dmY x)) = Inr (Some x)" by (rule parse_date_format_dmY)
next
  assume h: "s \<noteq> [] \<and> date_formats = pre @ f # post \<and>
      (\<forall>g\<in>set pre. \<exists>e. strptime g (strip s) = Inl e) \<and> strptime f (strip s) = Inr d"
  then have "try_formats (pre @ f # post) (strip s) = Inr (Some d)"
    by (intro try_formats_first) simp_all
  with h show "parse_date (Text s) = Inr (Some d)" by (simp add: parse_date_def)
next
  assume "\<forall>g\<in>set date_formats. \<exists>e. strptime g (strip s) = Inl e"
  then have "try_formats date_formats (strip s) = Inr None" by (rule try_formats_none)
  then show "parse_date (Text s) = Inr None" by (simp add: parse_date_def)
next
  assume "list_all is_space s"
  then show "parse_date (Text s) = Inr None"
    by (simp add: parse_date_def strip_blank try_formats_blank)
next
  show "parse_date Missing = Inr None" by (simp add: parse_date_def)
next
  show "date_formats =
     [[Directive Dir_d, Literal 46, Directive Dir_m, Literal 46, Directive Dir_Y],
      [Directive Dir_d, Literal 47, Directive Dir_m, Literal 47, Directive Dir_Y],
      [Directive Dir_Y, Literal 45, Directive Dir_m, Literal 45, Directive Dir_d],
      [Directive Dir_d, Literal 45, Directive Dir_m, Literal 45, Directive Dir_Y],
      [Directive Dir_d, Literal 46, Directive Dir_m, Literal 46, Directive Dir_y],
      [Directive Dir_d, Literal 47, Directive Dir_m, Literal 47, Directive Dir_y]]"
    by (simp add: date_formats_def)
qed

theorem parse_date_round_trip_witness:
  "valid_date \<lparr>d_year = 2024, d_month = 2, d_day = 29\<rparr> \<and>
   parse_date (Text (asc ''29.02.2024'')) = Inr (Some \<lparr>d_year = 2024, d_month = 2, d_day = 29\<rparr>) \<and>
   strptime [Directive Dir_d, Literal 46, Directive Dir_m, Literal 46, Directive Dir_Y] (asc ''2020-01-15'') = Inl ValueError \<and>
   strptime [Directive Dir_d, Literal 47, Directive Dir_m, Literal 47, Directive Dir_Y] (asc ''2020-01-15'') = Inl ValueError \<and>
   strptime [Directive Dir_Y, Literal 45, Directive Dir_m, Literal 45, Directive Dir_d] (asc ''2020-01-15'')
     = Inr \<lparr>d_year = 2020, d_month = 1, d_day = 15\<rparr> \<and>
   parse_date (Text (asc '' 2020-01-15 '')) = Inr (Some \<lparr>d_year = 2020, d_month = 1, d_day = 15\<rparr>) \<and>
   list_all is_space (asc ''   '') \<and>
   parse_date (Text (asc ''   '')) = Inr None"
proof -
  let ?f1 = "[Directive Dir_d, Literal 46, Directive Dir_m, Literal 46, Directive Dir_Y]"
  let ?f2 = "[Directive Dir_d, Literal 47, Directive Dir_m, Literal 47, Directive Dir_Y]"
  let ?f3 = "[Directive Dir_Y, Literal 45, Directive Dir_m, Literal 45, Directive Dir_d]"
  let ?x = "\<lparr>d_year = 2024, d_month = 2, d_day = 29\<rparr>"
  let ?s = "asc '' 2020-01-15 ''"
  have v: "valid_date ?x" by (simp add: date_eval)
  have fx: "format_dmY ?x = asc ''29.02.2024''" by (simp add: date_eval text_eval)
  have st: "strip ?s = asc ''2020-01-15''" by (simp add: text_eval)
  have s1: "strptime ?f1 (asc ''2020-01-15'') = Inl ValueError" by (simp add: text_eval rx_eval date_eval)
  have s2: "strptime ?f2 (asc ''2020-01-15'') = Inl ValueError" by (simp add: text_eval rx_eval date_eval)
  have s3: "strptime ?f3 (asc ''2020-01-15'') = Inr \<lparr>d_year = 2020, d_month = 1, d_day = 15\<rparr>"
    by (simp add: text_eval rx_eval date_eval)
  have ne: "?s \<noteq> []" by (simp add: asc_def)
  have sp: "list_all is_space (asc ''   '')" by (simp add: text_eval)
  have split: "date_formats = [?f1, ?f2] @ ?f3 # tl (tl (tl date_formats))" by (simp add: date_formats_def)
  show ?thesis
    using v fx st s1 s2 s3 ne sp split
      parse_date_round_trip [of ?x ?s "[?f1, ?f2]" ?f3 "tl (tl (tl date_formats))" "\<lparr>d_year = 2020, d_month = 1, d_day = 15\<rparr>"]
      parse_date_round_trip [of ?x "asc ''   ''"]
    by simp
qed

section \<open>Properties of the batch orchestrator\<close>

text \<open>
  C3, as the program has it. In every output row the exclusion-date cell is text. It is
  not empty only when the found flag of the row is "da", and then it is the exclusion date
  of the lookup, which is not blank and, in lower case, not one of the placeholders; a
  lookup that is found with such an exclusion date always fills the cell. A row that is
  not found has an empty cell, and every placeholder is blanked. The category of the
  lookup decides nothing here.
\<close>

theorem exclusion_cell_rule:
  assumes "process_excel_file S h df = Inr out" "i < length df"
  shows "(\<exists>e. col_exclusion (out ! i) = Text e) \<and>
     (col_exclusion (out ! i) \<noteq> Text [] \<longrightarrow>
        col_smsp (out ! i) = Text yes_ru \<and>
        (\<exists>v sr. row_inn (df ! i) = Some v \<and> S i (strip v) = Inr (Some sr) \<and> r_found sr \<and>
           col_exclusion (out ! i) = Text (r_exclusion_date sr) \<and>
           strip (r_exclusion_date sr) \<noteq> [] \<and> lower (r_exclusion_date sr) \<notin> set placeholders)) \<and>
     (row_inn (df ! i) = Some v \<and> strip v \<noteq> [] \<and> S i (strip v) = Inr (Some sr) \<and> r_found sr \<and>
        strip (r_exclusion_date sr) \<noteq> [] \<and> lower (r_exclusion_date sr) \<notin> set placeholders \<longrightarrow>
        col_exclusion (out ! i) = Text (r_exclusion_date sr)) \<and>
     (col_smsp (out ! i) \<noteq> Text yes_ru \<longrightarrow> col_exclusion (out ! i) = Text []) \<and>
     (\<forall>p\<in>set placeholders. exclusion_cell p = [])"
proof -
  let ?r = "add_output_columns h df ! i"
  obtain out' where o: "process_excel_file S h df = Inr out'" "length out' = length df"
    and rows: "\<forall>j<length df. out' ! j = projr (process_row (S j) (add_output_columns h df ! j))"
    using process_excel_file_rows by blast
  obtain r' where r': "process_row (S i) ?r = Inr r'" using process_row_total by blast
  have oi: "out ! i = r'" using o rows assms r' by simp
  have inn: "row_inn ?r = row_inn (df ! i)" using assms(2) by (simp add: add_output_columns_def)
  note c = process_row_columns [OF r', unfolded inn]
  have ne: "yes_ru \<noteq> no_ru" by (simp add: yes_ru_def no_ru_def)
  have ph: "\<forall>p\<in>set placeholders. exclusion_cell p = []"
    by (simp add: placeholders_def exclusion_cell_def lower_def lower_cp_def)
  have strip_nil: "strip [] = []" by (simp add: strip_def)
  show ?thesis
    unfolding oi using c ne ph
    by (auto simp: process_single_inn_def default_robot_def exclusion_cell_def strip_nil
        split: option.splits sum.splits if_splits)
qed

theorem exclusion_cell_rule_witness:
  "process_excel_file (always_returns (Some \<lparr>r_found = True, r_organization_name = asc ''OOO'', r_category = cat_not_msp, r_inclusion_date = asc ''01.08.2016'', r_exclusion_date = asc ''15.03.2021'', r_region = [], r_inn = [], r_ogrn = [], r_message = []\<rparr>)) \<lparr>has_smsp = False, has_category = False, has_inclusion = False, has_exclusion = False, has_discrepancy = False\<rparr>
     [\<lparr>row_inn = Some (asc ''7707083893''), row_contract = Text (asc ''01.01.2015''), col_smsp = Other, col_category = Other, col_inclusion = Other, col_exclusion = Other, col_discrepancy = Other\<rparr>]
   = Inr [\<lparr>row_inn = Some (asc ''7707083893''), row_contract = Text (asc ''01.01.2015''), col_smsp = Text yes_ru, col_category = Text cat_not_msp, col_inclusion = Text (asc ''01.08.2016''), col_exclusion = Text (asc ''15.03.2021''), col_discrepancy = Text yes_ru\<rparr>] \<and>
   (0::nat) < length [\<lparr>row_inn = Some (asc ''7707083893''), row_contract = Text (asc ''01.01.2015''), col_smsp = Other, col_category = Other, col_inclusion = Other, col_exclusion = Other, col_discrepancy = Other\<rparr>] \<and>
   [\<lparr>row_inn = Some (asc ''7707083893''), row_contract = Text (asc ''01.01.2015''), col_smsp = Text yes_ru, col_category = Text cat_not_msp, col_inclusion = Text (asc ''01.08.2016''), col_exclusion = Text (asc ''15.03.2021''), col_discrepancy = Text yes_ru\<rparr>] ! 0 = \<lparr>row_inn = Some (asc ''7707083893''), row_contract = Text (asc ''01.01.2015''), col_smsp = Text yes_ru, col_category = Text cat_not_msp, col_inclusion = Text (asc ''01.08.2016''), col_exclusion = Text (asc ''15.03.2021''), col_discrepancy = Text yes_ru\<rparr> \<and>
   strip (asc ''15.03.2021'') \<noteq> [] \<and> lower (asc ''15.03.2021'') \<notin> set placeholders \<and>
   exclusion_cell [1087, 1091, 1089, 1090, 1086] = []"
proof -
  let ?sr = "\<lparr>r_found = True, r_organization_name = asc ''OOO'', r_category = cat_not_msp, r_inclusion_date = asc ''01.08.2016'', r_exclusion_date = asc ''15.03.2021'', r_region = [], r_inn = [], r_ogrn = [], r_message = []\<rparr>"
  let ?df = "[\<lparr>row_inn = Some (asc ''7707083893''), row_contract = Text (asc ''01.01.2015''), col_smsp = Other, col_category = Other, col_inclusion = Other, col_exclusion = Other, col_discrepancy = Other\<rparr>]"
  let ?out = "[\<lparr>row_inn = Some (asc ''7707083893''), row_contract = Text (asc ''01.01.2015''), col_smsp = Text yes_ru, col_category = Text cat_not_msp, col_inclusion = Text (asc ''01.08.2016''), col_exclusion = Text (asc ''15.03.2021''), col_discrepancy = Text yes_ru\<rparr>]"
  have run: "process_excel_file (always_returns (Some ?sr)) \<lparr>has_smsp = False, has_category = False, has_inclusion = False, has_exclusion = False, has_discrepancy = False\<rparr> ?df = Inr ?out"
    by (simp add: batch_eval date_eval text_eval rx_eval)
  have len: "(0::nat) < length ?df" by simp
  have a: "strip (asc ''15.03.2021'') \<noteq> []" and b: "lower (asc ''15.03.2021'') \<notin> set placeholders"
    by (simp_all add: text_eval placeholders_def)
  have p: "[1087, 1091, 1089, 1090, 1086] \<in> set placeholders" by (simp add: placeholders_def)
  show ?thesis
    using run a b p exclusion_cell_rule [OF run len, of "asc ''7707083893''" ?sr]
    by simp
qed

text \<open>
  C3 as stated fails: a lookup that is found in the category "Mikropredpriyatie", with a
  fifth table cell "10.07.2020", fills the exclusion-date cell although the category is
  not "Ne yavlyaetsya subektom MSP".
\<close>

theorem exclusion_without_category_counterexample:
  "process_excel_file (always_returns (Some \<lparr>r_found = True, r_organization_name = asc ''OOO'', r_category = cat_micro, r_inclusion_date = asc ''01.08.2016'', r_exclusion_date = asc ''10.07.2020'', r_region = [], r_inn = [], r_ogrn = [], r_message = []\<rparr>)) \<lparr>has_smsp = False, has_category = False, has_inclusion = False, has_exclusion = False, has_discrepancy = False\<rparr>
     [\<lparr>row_inn = Some (asc ''7707083893''), row_contract = Text (asc ''01.01.2015''), col_smsp = Other, col_category = Other, col_inclusion = Other, col_exclusion = Other, col_discrepancy = Other\<rparr>]
   = Inr [\<lparr>row_inn = Some (asc ''7707083893''), row_contract = Text (asc ''01.01.2015''), col_smsp = Text yes_ru, col_category = Text cat_micro, col_inclusion = Text (asc ''01.08.2016''), col_exclusion = Text (asc ''10.07.2020''), col_discrepancy = Text yes_ru\<rparr>] \<and>
   cat_micro \<noteq> cat_not_msp \<and> asc ''10.07.2020'' \<noteq> []"
  by (simp add: batch_eval date_eval text_eval rx_eval)

text \<open>
  C7. A lookup that raises leaves the row with the found flag "net" and empty category,
  inclusion date and exclusion date, and the loop goes on (\<open>process_excel_file_rows\<close>).
  The discrepancy cell, however, is written only for a row that is found: when the file
  already has that column, the row of a failed lookup keeps the old flag, here "da",
  although the default result of \<open>process_single_inn\<close> has it empty.
\<close>

theorem stale_discrepancy_after_failed_lookup:
  "process_excel_file (always_raises WebDriverException) \<lparr>has_smsp = True, has_category = True, has_inclusion = True, has_exclusion = True, has_discrepancy = True\<rparr>
     [\<lparr>row_inn = Some (asc ''7707083893''), row_contract = Text (asc ''01.01.2015''), col_smsp = Text yes_ru, col_category = Text cat_micro, col_inclusion = Text (asc ''01.08.2016''), col_exclusion = Text [], col_discrepancy = Text yes_ru\<rparr>]
   = Inr [\<lparr>row_inn = Some (asc ''7707083893''), row_contract = Text (asc ''01.01.2015''), col_smsp = Text no_ru, col_category = Text [], col_inclusion = Text [], col_exclusion = Text [], col_discrepancy = Text yes_ru\<rparr>] \<and>
   yes_ru \<noteq> []"
  by (simp add: batch_eval date_eval text_eval rx_eval)

section \<open>Properties of the record extractor\<close>




text \<open>
  C4, as the program has it. \<open>parse_results\<close> looks at the first \<open>div\<close> whose class has
  \<open>alert\<close> or \<open>warning\<close> in it: when its text, in lower case, has "ne naideno", "ne naiden"
  or "otsutstvuet" in it, the result is not found, with that text as the message. Failing
  that it looks at the first string with "Uvazhaemyi polzovatel": when the text of the tag
  around it has "ne naideno svedenii" in it, the result is not found, with that text as
  the message. Either way nothing else of the document is read, a table included.
  \<open>parse_search_results\<close> knows the banner only, and its message is a fixed one.
\<close>

theorem negative_detection_first:
  "(find_tag (\<lambda>x. tag_name x = asc ''div'' \<and> class_matches True alert_rx x) soup = Some block \<and>
      list_ex (contains (lower (get_text_strip block))) [w_not_found, w_not_found_short, w_absent] \<longrightarrow>
      parse_results rt (Inr soup) = Inr (default_lookup\<lparr>r_found := False, r_message := get_text_strip block\<rparr>)) \<and>
   (warning_stage soup = None \<and> find_string False (lit dear_user) soup = Some (s, parent) \<and>
      contains (lower (get_text_strip parent)) w_no_information \<longrightarrow>
      parse_results rt (Inr soup) = Inr (default_lookup\<lparr>r_found := False, r_message := get_text_strip parent\<rparr>)) \<and>
   (banner_found soup \<longrightarrow>
      parse_search_results soup = Inr (default_sresult\<lparr>s_message := msg_not_in_registry\<rparr>)) \<and>
   \<not> r_found default_lookup \<and> \<not> s_found default_sresult"
  by (simp add: parse_results_def ebind_def [of "Inr soup"] warning_stage_def user_message_stage_def
      parse_search_results_def Let_def default_lookup_def default_sresult_def)

theorem negative_detection_first_witness:
  "find_tag (\<lambda>x. tag_name x = asc ''div'' \<and> class_matches True alert_rx x) doc_alert = Some alert_block \<and>
   list_ex (contains (lower (get_text_strip alert_block))) [w_not_found, w_not_found_short, w_absent] \<and>
   parse_results utf8_runtime (Inr doc_alert) = Inr (default_lookup\<lparr>r_found := False, r_message := w_not_found\<rparr>) \<and>
   warning_stage doc_banner = None \<and>
   find_string False (lit dear_user) doc_banner =
     Some (dear_user @ asc ''! '' @ w_no_information,
           Tag (asc ''div'') [] [Str Plain (dear_user @ asc ''! '' @ w_no_information)]) \<and>
   parse_results utf8_runtime (Inr doc_banner) =
     Inr (default_lookup\<lparr>r_found := False, r_message := dear_user @ asc ''! '' @ w_no_information\<rparr>) \<and>
   banner_found doc_banner \<and>
   parse_search_results doc_banner = Inr (default_sresult\<lparr>s_message := msg_not_in_registry\<rparr>)"
proof -
  let ?banner = "Tag (asc ''div'') [] [Str Plain (dear_user @ asc ''! '' @ w_no_information)]"
  have a1: "find_tag (\<lambda>x. tag_name x = asc ''div'' \<and> class_matches True alert_rx x) doc_alert = Some alert_block"
    by (simp add: all_eval)
  have a2: "get_text_strip alert_block = w_not_found" by (simp add: all_eval)
  have a3: "list_ex (contains (lower w_not_found)) [w_not_found, w_not_found_short, w_absent]"
    by (simp add: all_eval)
  have b1: "warning_stage doc_banner = None" by (simp add: all_eval)
  have b2: "find_string False (lit dear_user) doc_banner = Some (dear_user @ asc ''! '' @ w_no_information, ?banner)"
    by (simp add: all_eval)
  have b3: "get_text_strip ?banner = dear_user @ asc ''! '' @ w_no_information"
    by (simp add: all_eval)
  have b4: "get_text ?banner = dear_user @ asc ''! '' @ w_no_information"
    by (simp add: all_eval)
  have b5: "contains (lower (dear_user @ asc ''! '' @ w_no_information)) w_no_information"
    by (simp add: all_eval)
  have b6: "banner_found doc_banner" by (simp add: banner_found_def b2 b4 b5)
  show ?thesis
    using a1 a2 a3 b1 b2 b3 b5 b6
      negative_detection_first [of doc_alert alert_block utf8_runtime]
      negative_detection_first [of doc_banner _ utf8_runtime "dear_user @ asc ''! '' @ w_no_information" ?banner]
    by simp
qed

text \<open>
  C4 as stated fails. In \<open>doc_two_alerts\<close> the second \<open>div\<close> is styled as an alert and says
  "ne naideno", but the first alert-styled \<open>div\<close> says something else, so the table is read
  and the result is found. And in the other two scripts the message after the banner is
  "Organizatsiya ne naidena v reestre", not the text of the banner.
\<close>

theorem later_alert_missed_counterexample:
  "children doc_two_alerts ! 1 = alert_block \<and>
   tag_name alert_block = asc ''div'' \<and> class_matches True alert_rx alert_block \<and>
   contains (lower (get_text_strip alert_block)) w_not_found \<and>
   parse_results utf8_runtime (Inr doc_two_alerts) =
     Inr \<lparr>r_found = True, r_organization_name = asc ''OOO ROMASHKA'', r_category = cat_micro,
          r_inclusion_date = asc ''01.08.2016'', r_exclusion_date = [], r_region = asc ''77'',
          r_inn = [], r_ogrn = [], r_message = []\<rparr> \<and>
   banner_found doc_banner \<and>
   parse_search_results doc_banner = Inr (default_sresult\<lparr>s_message := msg_not_in_registry\<rparr>) \<and>
   msg_not_in_registry \<noteq> get_text_strip (hd (children doc_banner))"
  by (simp add: all_eval)

text \<open>
  C9, as the program has it. When neither earlier check fires and the first string in
  which the counter pattern is found has a zero count at the first place it is found, the
  result is not found with the message "Zapisi ne naideny"; nothing else is read.
\<close>

theorem zero_counter_first:
  "warning_stage soup = None \<and> user_message_stage soup = None \<and>
   find_string False counter_rx soup = Some (found_count, parent) \<and>
   re_search False counter_rx found_count = Some count_match \<and>
   group1 count_match = Inr g \<and> py_int g = Inr 0 \<longrightarrow>
   parse_results rt (Inr soup) = Inr (default_lookup\<lparr>r_found := False, r_message := msg_no_records\<rparr>)"
  by (simp add: parse_results_def counter_stage_def ebind_def)

theorem zero_counter_first_witness:
  "warning_stage doc_counter = None \<and> user_message_stage doc_counter = None \<and>
   find_string False counter_rx doc_counter =
     Some (counter_label @ asc '' 0'', Tag (asc ''span'') [] [Str Plain (counter_label @ asc '' 0'')]) \<and>
   re_search False counter_rx (counter_label @ asc '' 0'') =
     Some \<lparr>m_start = 0, m_end = 18, m_groups = [asc ''0'']\<rparr> \<and>
   group1 \<lparr>m_start = 0, m_end = 18, m_groups = [asc ''0'']\<rparr> = Inr (asc ''0'') \<and>
   py_int (asc ''0'') = Inr 0 \<and>
   parse_results utf8_runtime (Inr doc_counter) =
     Inr (default_lookup\<lparr>r_found := False, r_message := msg_no_records\<rparr>)"
proof -
  let ?m = "\<lparr>m_start = 0, m_end = 18, m_groups = [asc ''0'']\<rparr>"
  let ?par = "Tag (asc ''span'') [] [Str Plain (counter_label @ asc '' 0'')]"
  have h1: "warning_stage doc_counter = None" by (simp add: all_eval)
  have h2: "user_message_stage doc_counter = None" by (simp add: all_eval)
  have h3: "find_string False counter_rx doc_counter = Some (counter_label @ asc '' 0'', ?par)"
    by (simp add: all_eval)
  have h4: "re_search False counter_rx (counter_label @ asc '' 0'') = Some ?m"
    by (simp add: all_eval)
  have h5: "group1 ?m = Inr (asc ''0'')" by (simp add: all_eval)
  have h6: "py_int (asc ''0'') = Inr 0" by (simp add: all_eval)
  show ?thesis
    using h1 h2 h3 h4 h5 h6
      zero_counter_first [of doc_counter "counter_label @ asc '' 0''" ?par ?m "asc ''0''" utf8_runtime]
    by simp
qed

text \<open>
  C9 as stated fails. \<open>doc_two_counters\<close> has a counter with the count 0, after one with
  the count 3: only the first is read, and the table gives a found result. In
  \<open>doc_split_counter\<close> the text of the page reads "Naideno zapisei: 0", with the number in
  a tag of its own: no single string has the pattern, and the result is found as well.
\<close>

theorem zero_counter_missed_counterexample:
  "children doc_two_counters ! 1 = Tag (asc ''p'') [] [Str Plain (counter_label @ asc '' 0'')] \<and>
   re_search False counter_rx (counter_label @ asc '' 0'') =
     Some \<lparr>m_start = 0, m_end = 18, m_groups = [asc ''0'']\<rparr> \<and>
   py_int (asc ''0'') = Inr 0 \<and>
   parse_results utf8_runtime (Inr doc_two_counters) =
     Inr \<lparr>r_found = True, r_organization_name = asc ''OOO ROMASHKA'', r_category = cat_micro,
          r_inclusion_date = asc ''01.08.2016'', r_exclusion_date = [], r_region = asc ''77'',
          r_inn = [], r_ogrn = [], r_message = []\<rparr> \<and>
   get_text (hd (children doc_split_counter)) = counter_label @ asc '' 0'' \<and>
   parse_results utf8_runtime (Inr doc_split_counter) =
     Inr \<lparr>r_found = True, r_organization_name = asc ''OOO ROMASHKA'', r_category = cat_micro,
          r_inclusion_date = asc ''01.08.2016'', r_exclusion_date = [], r_region = asc ''77'',
          r_inn = [], r_ogrn = [], r_message = []\<rparr>"
  by (simp add: all_eval)

text \<open>
  C5, as the program has it. In \<open>parse_search_results\<close>, with no banner and no row in a
  table, the keywords "mikropredpriyatie", "maloe predpriyatie" and "srednee predpriyatie"
  are looked for in the lowered text of the page, in this order; the first one found sets
  the category, and the inclusion date is the first text of the shape dd.mm.yyyy in the
  page, or "-" when there is none. In \<open>parse_results\<close>, when the early checks, the table
  and the selectors gave nothing, the categories count only if the text of the page has
  \<open>RSMP_CATEGORY\<close> in it: then the result is found, the category is the first of the four
  categories, as they are written, that the text has, the name is a fixed phrase, and the
  inclusion date stays empty. Without \<open>RSMP_CATEGORY\<close> the result is not found.
\<close>

theorem keyword_fallback_rule:
  "(\<not> banner_found soup \<and> table_search soup default_sresult = Inr default_sresult \<and>
      list_ex (contains (lower (get_text soup))) [kw_micro, kw_small, kw_medium] \<longrightarrow>
      parse_search_results soup =
        Inr \<lparr>s_found = True,
             s_category = (if contains (lower (get_text soup)) kw_micro then cat_micro
                           else if contains (lower (get_text soup)) kw_small then cat_small
                           else cat_medium),
             s_inclusion_date = (case re_search False date_rx (get_text soup) of
                                   None \<Rightarrow> [45]
                                 | Some m \<Rightarrow> m_text (get_text soup) m),
             s_message = []\<rparr>) \<and>
   (print_ok rt \<and>
      warning_stage soup = None \<and> user_message_stage soup = None \<and> counter_stage soup = Inr None \<and>
      table_stage rt soup default_lookup = Inr default_lookup \<and>
      try_selectors name_selectors soup default_lookup = Inr default_lookup \<and>
      contains (get_text soup) (asc ''RSMP_CATEGORY'') \<and>
      list_ex (contains (get_text soup)) [cat_micro, cat_small, cat_medium, cat_not_msp] \<longrightarrow>
      (\<exists>r. parse_results rt (Inr soup) = Inr r \<and> r_found r \<and>
           r_category r = (if contains (get_text soup) cat_micro then cat_micro
                           else if contains (get_text soup) cat_small then cat_small
                           else if contains (get_text soup) cat_medium then cat_medium
                           else cat_not_msp) \<and>
           r_inclusion_date r = [] \<and> r_organization_name r = name_to_be_checked)) \<and>
   (warning_stage soup = None \<and> user_message_stage soup = None \<and> counter_stage soup = Inr None \<and>
      table_stage rt soup default_lookup = Inr default_lookup \<and>
      try_selectors name_selectors soup default_lookup = Inr default_lookup \<and>
      \<not> contains (get_text soup) (asc ''RSMP_CATEGORY'') \<longrightarrow>
      parse_results rt (Inr soup) = Inr default_lookup)"
proof (intro conjI impI)
  assume "\<not> banner_found soup \<and> table_search soup default_sresult = Inr default_sresult \<and>
      list_ex (contains (lower (get_text soup))) [kw_micro, kw_small, kw_medium]"
  then show "parse_search_results soup =
        Inr \<lparr>s_found = True,
             s_category = (if contains (lower (get_text soup)) kw_micro then cat_micro
                           else if contains (lower (get_text soup)) kw_small then cat_small
                           else cat_medium),
             s_inclusion_date = (case re_search False date_rx (get_text soup) of
                                   None \<Rightarrow> [45]
                                 | Some m \<Rightarrow> m_text (get_text soup) m),
             s_message = []\<rparr>"
    by (auto simp: parse_search_results_def ebind_def default_sresult_def keyword_search_def Let_def
        split: option.splits)
next
  assume h: "print_ok rt \<and>
      warning_stage soup = None \<and> user_message_stage soup = None \<and> counter_stage soup = Inr None \<and>
      table_stage rt soup default_lookup = Inr default_lookup \<and>
      try_selectors name_selectors soup default_lookup = Inr default_lookup \<and>
      contains (get_text soup) (asc ''RSMP_CATEGORY'') \<and>
      list_ex (contains (get_text soup)) [cat_micro, cat_small, cat_medium, cat_not_msp]"
  let ?k = "keyword_stage soup default_lookup"
  obtain x where x: "exclusion_stage rt soup ?k = Inr x" using exclusion_stage_total h by blast
  have nf: "\<not> r_found default_lookup" by (simp add: default_lookup_def)
  have run: "parse_results rt (Inr soup) = Inr x"
    using h x nf by (simp add: parse_results_def ebind_def detail_stage_def)
  have k: "r_found ?k \<and>
           r_category ?k = (if contains (get_text soup) cat_micro then cat_micro
                           else if contains (get_text soup) cat_small then cat_small
                           else if contains (get_text soup) cat_medium then cat_medium
                           else cat_not_msp) \<and>
           r_inclusion_date ?k = [] \<and> r_organization_name ?k = name_to_be_checked"
    using h by (auto simp: keyword_stage_def Let_def default_lookup_def)
  show "\<exists>r. parse_results rt (Inr soup) = Inr r \<and> r_found r \<and>
           r_category r = (if contains (get_text soup) cat_micro then cat_micro
                           else if contains (get_text soup) cat_small then cat_small
                           else if contains (get_text soup) cat_medium then cat_medium
                           else cat_not_msp) \<and>
           r_inclusion_date r = [] \<and> r_organization_name r = name_to_be_checked"
    using run k exclusion_stage_keeps [OF x] by simp
next
  assume h: "warning_stage soup = None \<and> user_message_stage soup = None \<and> counter_stage soup = Inr None \<and>
      table_stage rt soup default_lookup = Inr default_lookup \<and>
      try_selectors name_selectors soup default_lookup = Inr default_lookup \<and>
      \<not> contains (get_text soup) (asc ''RSMP_CATEGORY'')"
  have nf: "\<not> r_found default_lookup" by (simp add: default_lookup_def)
  have "keyword_stage soup default_lookup = default_lookup"
    using h by (simp add: keyword_stage_def Let_def)
  then show "parse_results rt (Inr soup) = Inr default_lookup"
    using h nf by (simp add: parse_results_def ebind_def detail_stage_def exclusion_stage_def)
qed

theorem keyword_fallback_rule_witness:
  "\<not> banner_found doc_keyword \<and> table_search doc_keyword default_sresult = Inr default_sresult \<and>
   list_ex (contains (lower (get_text doc_keyword))) [kw_micro, kw_small, kw_medium] \<and>
   parse_search_results doc_keyword =
     Inr \<lparr>s_found = True, s_category = cat_small, s_inclusion_date = asc ''01.02.2020'', s_message = []\<rparr> \<and>
   print_ok utf8_runtime \<and>
   warning_stage doc_keyword_marker = None \<and> user_message_stage doc_keyword_marker = None \<and>
   counter_stage doc_keyword_marker = Inr None \<and>
   table_stage utf8_runtime doc_keyword_marker default_lookup = Inr default_lookup \<and>
   try_selectors name_selectors doc_keyword_marker default_lookup = Inr default_lookup \<and>
   contains (get_text doc_keyword_marker) (asc ''RSMP_CATEGORY'') \<and>
   list_ex (contains (get_text doc_keyword_marker)) [cat_micro, cat_small, cat_medium, cat_not_msp] \<and>
   (\<exists>r. parse_results utf8_runtime (Inr doc_keyword_marker) = Inr r \<and> r_found r \<and> r_category r = cat_small \<and>
        r_inclusion_date r = [] \<and> r_organization_name r = name_to_be_checked) \<and>
   warning_stage doc_keyword = None \<and> user_message_stage doc_keyword = None \<and>
   counter_stage doc_keyword = Inr None \<and>
   table_stage utf8_runtime doc_keyword default_lookup = Inr default_lookup \<and>
   try_selectors name_selectors doc_keyword default_lookup = Inr default_lookup \<and>
   \<not> contains (get_text doc_keyword) (asc ''RSMP_CATEGORY'') \<and>
   parse_results utf8_runtime (Inr doc_keyword) = Inr default_lookup"
proof -
  have t1: "get_text doc_keyword = cat_small @ asc '' 01.02.2020''" by (simp add: all_eval)
  have t2: "get_text doc_keyword_marker = asc ''RSMP_CATEGORY: '' @ cat_small @ asc '' 01.02.2020''"
    by (simp add: all_eval)
  have a1: "\<not> banner_found doc_keyword" by (simp add: all_eval)
  have a2: "table_search doc_keyword default_sresult = Inr default_sresult" by (simp add: all_eval)
  have a3: "contains (lower (cat_small @ asc '' 01.02.2020'')) kw_small
            \<and> \<not> contains (lower (cat_small @ asc '' 01.02.2020'')) kw_micro"
    by (simp add: all_eval)
  have a4: "re_search False date_rx (cat_small @ asc '' 01.02.2020'')
            = Some \<lparr>m_start = 18, m_end = 28, m_groups = []\<rparr>"
    by (simp add: all_eval)
  have a5: "m_text (cat_small @ asc '' 01.02.2020'') \<lparr>m_start = 18, m_end = 28, m_groups = []\<rparr>
            = asc ''01.02.2020''"
    by (simp add: all_eval)
  have b1: "warning_stage doc_keyword_marker = None" "user_message_stage doc_keyword_marker = None"
    "counter_stage doc_keyword_marker = Inr None"
    "table_stage utf8_runtime doc_keyword_marker default_lookup = Inr default_lookup"
    "try_selectors name_selectors doc_keyword_marker default_lookup = Inr default_lookup"
    by (simp_all add: all_eval)
  have b2: "contains (asc ''RSMP_CATEGORY: '' @ cat_small @ asc '' 01.02.2020'') (asc ''RSMP_CATEGORY'')"
    "contains (asc ''RSMP_CATEGORY: '' @ cat_small @ asc '' 01.02.2020'') cat_small"
    "\<not> contains (asc ''RSMP_CATEGORY: '' @ cat_small @ asc '' 01.02.2020'') cat_micro"
    by (simp_all add: all_eval)
  have c1: "warning_stage doc_keyword = None" "user_message_stage doc_keyword = None"
    "counter_stage doc_keyword = Inr None"
    "table_stage utf8_runtime doc_keyword default_lookup = Inr default_lookup"
    "try_selectors name_selectors doc_keyword default_lookup = Inr default_lookup"
    by (simp_all add: all_eval)
  have c2: "\<not> contains (cat_small @ asc '' 01.02.2020'') (asc ''RSMP_CATEGORY'')"
    by (simp add: all_eval)
  show ?thesis
    using a1 a2 a3 a4 a5 b1 b2 c1 c2
      keyword_fallback_rule [of doc_keyword utf8_runtime]
      keyword_fallback_rule [of doc_keyword_marker utf8_runtime]
    by (simp add: t1 t2 utf8_runtime_def)
qed

text \<open>
  C5 as stated fails for \<open>parse_results\<close>. The text of \<open>doc_keyword\<close> is "Maloe predpriyatie
  01.02.2020" and nothing else: the result is not found. With \<open>RSMP_CATEGORY\<close> in front the
  result is found and the category set, but the inclusion date is empty, not the date in
  the text.
\<close>

theorem keyword_without_marker_counterexample:
  "contains (get_text doc_keyword) cat_small \<and>
   re_search False date_rx (get_text doc_keyword) = Some \<lparr>m_start = 18, m_end = 28, m_groups = []\<rparr> \<and>
   m_text (get_text doc_keyword) \<lparr>m_start = 18, m_end = 28, m_groups = []\<rparr> = asc ''01.02.2020'' \<and>
   parse_results utf8_runtime (Inr doc_keyword) = Inr default_lookup \<and> \<not> r_found default_lookup \<and>
   parse_results utf8_runtime (Inr doc_keyword_marker) =
     Inr \<lparr>r_found = True, r_organization_name = name_to_be_checked, r_category = cat_small,
          r_inclusion_date = [], r_exclusion_date = [], r_region = [], r_inn = [], r_ogrn = [],
          r_message = []\<rparr>"
  by (simp add: all_eval)

section \<open>Properties of the lookup\<close>

text \<open>
  What holds of the check before the lookup: an identifier that \<open>validate_inn\<close> rejects
  gives two printed lines and \<open>None\<close> (or the exception of \<open>print\<close>) and no other event,
  whatever the world; \<open>search_rmsp_playwright\<close> gives its dictionary and no event at all.
\<close>

lemma prints_only: "list_all is_print (fst (prints_at w ls))"
proof (induction ls)
  case Nil
  then show ?case by (simp add: io_return_def)
next
  case (Cons l ls)
  then show ?case
    by (cases "prints_at w ls") (auto simp: io_bind_def print_at_def split: sum.splits)
qed

lemma search_by_inn_rejects:
  assumes "validate_inn inn = None"
  shows "search_by_inn w inn =
           (if stdout_takes w 420
            then if stdout_takes w 421 then ([Printed 420, Printed 421], Inr None)
                 else ([Printed 420], Inl UnicodeEncodeError)
            else ([], Inl UnicodeEncodeError))"
    and "list_all is_print (fst (search_by_inn w inn))"
    and "search_rmsp_playwright w inn = ([], Inr (default_sresult\<lparr>s_message := msg_bad_inn @ py_str inn\<rparr>))"
  using assms
  by (simp_all add: search_by_inn_def search_rmsp_playwright_def io_bind_def io_return_def print_at_def)

lemma search_by_inn_accepted:
  assumes "validate_inn inn = Some validated_inn"
  shows "search_rmsp_playwright w inn =
           io_bind (prints_at w [39, 40]) (\<lambda>printed. playwright_session w validated_inn)"
  using assms by (simp add: search_rmsp_playwright_def)

text \<open>
  C6. The claim is about every identifier that is not 10 or 12 digits once spaces and
  hyphens are removed. Ten digits followed by a line feed are no such text, and the
  validator accepts them (see C2): \<open>search_by_inn\<close> goes on to ask ChromeDriver for its
  status and for a session, and the text, line feed included, is typed into the form of
  the site.
\<close>

theorem line_feed_identifier_reaches_site:
  "validate_inn (Some (asc ''1234567890'' @ [10])) = Some (asc ''1234567890'' @ [10]) \<and>
   search_by_inn working_world (Some (asc ''1234567890'' @ [10])) =
     ([Printed 424, Printed 425, Printed 67, Status_request, Session_request, Implicit_wait,
       Printed 90, Printed 117, Page_load, Element_wait, Printed 126, Input_cleared,
       Keys_sent (asc ''1234567890'' @ [10]), Printed 143, Element_wait, Clicked, Printed 165,
       Printed 173, Element_wait, Printed 184, Page_read, Window_close,
       Printed 452, Printed 453, Printed 454, Printed 458, Printed 459, Printed 460,
       Printed 463, Printed 484],
      Inr (Some no_records)) \<and>
   fst (search_rmsp_playwright working_world (Some (asc ''1234567890'' @ [10]))) =
     [Printed 39, Printed 40, Browser_launch, Printed 53, Page_load, Printed 57, Element_wait,
      Printed 73, Clicked, Field_filled [], Field_filled (asc ''1234567890'' @ [10]), Printed 91,
      Element_wait, Clicked, Printed 109, Printed 120, Element_wait, Page_read, Window_close]"
proof -
  have v: "validate_inn (Some (asc ''1234567890'' @ [10])) = Some (asc ''1234567890'' @ [10])"
    by (simp add: validate_inn_def inn_rx_def text_eval rx_eval)
  show ?thesis
    by (simp add: v io_eval default_lookup_def msg_no_records_def)
qed

section \<open>Properties of the identifier validator\<close>

text \<open>
  C2. The validator is meant to accept exactly the texts that, once spaces and hyphens are
  removed, are 10 or 12 decimal digits. The pattern ends in \<open>$\<close>, which also matches
  before a line feed that ends the text: ten digits followed by a line feed are accepted,
  and the text returned still carries the line feed.
\<close>

theorem validate_inn_trailing_newline:
  "validate_inn (Some (asc ''1234567890'' @ [10])) = Some (asc ''1234567890'' @ [10])"
  by (simp add: validate_inn_def inn_rx_def text_eval rx_eval)

end
